theory Spec2Isabelle
  imports Main
begin

section \<open>Python values, f-strings and exceptions\<close>

text \<open>
  The route handlers of \<^verbatim>\<open>backend/app/routes/images.py\<close> work on untyped Python
  dictionaries handed over by the database layer. A dictionary is an association list
  read with \<open>map_of\<close>. Floating point numbers are left out of the value universe: they occur
  only inside the metadata, whose validation is a parameter of the model.
\<close>

datatype pyval =
    VNone
  | VBool bool
  | VInt int
  | VStr string
  | VList "pyval list"
  | VDict "(string \<times> pyval) list"

type_synonym pydict = "(string \<times> pyval) list"

text \<open>
  An f-string is kept as the list of its parts, so that \<^verbatim>\<open>{e}\<close> and \<^verbatim>\<open>{file_path}\<close> need
  no rendering of Python's \<^verbatim>\<open>str()\<close>; a plain string literal is the one-part list
  \<open>[Lit s]\<close>. The \<^verbatim>\<open>detail\<close> of an \<^verbatim>\<open>HTTPException\<close> is either such a string or the dictionary
  \<^verbatim>\<open>ErrorResponse(success=..., error=..., message=...).model_dump()\<close>; the class
  \<^verbatim>\<open>ErrorResponse\<close> is declared in \<^verbatim>\<open>app.schemas.images\<close>, outside this module, and the
  dictionary is taken to hold the three fields the handler passes.
  \<open>AttributeError t a\<close> is the failed read of attribute \<open>a\<close> on a value of type \<open>t\<close>.
  \<open>Foreign\<close> is an exception raised inside a collaborator (database layer, metadata
  parser, operating system), named by its description; collaborators raise no
  \<^verbatim>\<open>HTTPException\<close>.
\<close>

datatype frag = Lit string | Val pyval | Exc exn
and detail =
    DetailStr "frag list"
  | DetailErrorResponse bool "frag list" "frag list"
and exn =
    KeyError string
  | AttributeError string string
  | ValidationError "string list"
  | HTTPException nat detail
  | Foreign string

datatype log_record = LogInfo "frag list" | LogError "frag list"

definition HTTP_500_INTERNAL_SERVER_ERROR :: nat where
  "HTTP_500_INTERNAL_SERVER_ERROR = 500"

definition foreign :: "string + 'a \<Rightarrow> exn + 'a" where
  "foreign r = (case r of Inl e \<Rightarrow> Inl (Foreign e) | Inr x \<Rightarrow> Inr x)"

definition and_then :: "exn + 'a \<Rightarrow> ('a \<Rightarrow> exn + 'b) \<Rightarrow> exn + 'b" where
  "and_then r k = (case r of Inl e \<Rightarrow> Inl e | Inr x \<Rightarrow> k x)"

text \<open>\<^verbatim>\<open>d[k]\<close> raises \<^verbatim>\<open>KeyError\<close> on a missing key; \<^verbatim>\<open>d.get(k, default)\<close> does not.\<close>

definition getitem :: "pydict \<Rightarrow> string \<Rightarrow> exn + pyval" where
  "getitem d k = (case map_of d k of None \<Rightarrow> Inl (KeyError k) | Some v \<Rightarrow> Inr v)"

definition dict_get :: "pydict \<Rightarrow> string \<Rightarrow> pyval \<Rightarrow> pyval" where
  "dict_get d k dflt = (case map_of d k of None \<Rightarrow> dflt | Some v \<Rightarrow> v)"

section \<open>Response models\<close>

text \<open>
  The source builds its models with pydantic 2 (it calls \<^verbatim>\<open>model_dump\<close>), which validates
  every field in lax mode: a \<^verbatim>\<open>str\<close> field takes a string only; a \<^verbatim>\<open>bool\<close> field takes a
  bool, the integers 0 and 1 and the usual spellings of true and false, whatever their case;
  \<^verbatim>\<open>Optional[List[str]]\<close> takes \<^verbatim>\<open>None\<close> or a list of strings.
\<close>

definition ascii_lower :: "char \<Rightarrow> char" where
  "ascii_lower c =
     (case map_of (zip ''ABCDEFGHIJKLMNOPQRSTUVWXYZ'' ''abcdefghijklmnopqrstuvwxyz'') c of
        None \<Rightarrow> c
      | Some l \<Rightarrow> l)"

definition validate_str :: "pyval \<Rightarrow> string option" where
  "validate_str v = (case v of VStr s \<Rightarrow> Some s | _ \<Rightarrow> None)"

definition str_as_bool :: "string \<Rightarrow> bool option" where
  "str_as_bool s =
     (let l = map ascii_lower s in
      if l \<in> set [''0'', ''off'', ''f'', ''false'', ''n'', ''no''] then Some False
      else if l \<in> set [''1'', ''on'', ''t'', ''true'', ''y'', ''yes''] then Some True
      else None)"

definition validate_bool :: "pyval \<Rightarrow> bool option" where
  "validate_bool v =
     (case v of
        VBool b \<Rightarrow> Some b
      | VInt n \<Rightarrow> (if n = 0 then Some False else if n = 1 then Some True else None)
      | VStr s \<Rightarrow> str_as_bool s
      | _ \<Rightarrow> None)"

definition validate_tags :: "pyval \<Rightarrow> string list option option" where
  "validate_tags v =
     (case v of
        VNone \<Rightarrow> Some None
      | VList vs \<Rightarrow> (case those (map validate_str vs) of None \<Rightarrow> None | Some ts \<Rightarrow> Some (Some ts))
      | _ \<Rightarrow> None)"

record 'f MetadataModel =
  name :: string
  date_created :: "string option"
  width :: int
  height :: int
  file_location :: string
  file_size :: int
  item_type :: string
  latitude :: "'f option"
  longitude :: "'f option"
  location :: "string option"

record 'f ImageData =
  id' :: string
  path :: string
  folder_id :: string
  thumbnailPath :: string
  metadata :: "'f MetadataModel"
  isTagged :: bool
  isFavourite :: bool
  tags :: "string list option"

record 'f GetAllImagesResponse =
  success :: bool
  message :: "frag list"
  data :: "'f ImageData list"

datatype FileResponse = FileResponse (response_path: string) (filename: string) (media_type: string)

section \<open>\<^verbatim>\<open>os.path\<close> on the host\<close>

definition backslash :: char where
  "backslash = CHR 0x5C"

text \<open>\<^verbatim>\<open>s.replace(a, b)\<close> for one-character \<open>a\<close> and \<open>b\<close>.\<close>

definition str_replace :: "char \<Rightarrow> char \<Rightarrow> string \<Rightarrow> string" where
  "str_replace a b s = map (\<lambda>c. if c = a then b else c) s"

text \<open>\<^verbatim>\<open>s.rfind(c)\<close>: the index of the last \<open>c\<close>, or -1.\<close>

definition rfind :: "string \<Rightarrow> char \<Rightarrow> int" where
  "rfind s c =
     (if c \<in> set s then int (length s) - 1 - int (length (takeWhile (\<lambda>x. x \<noteq> c) (rev s)))
      else - 1)"

text \<open>
  \<^verbatim>\<open>os.path\<close> is \<^verbatim>\<open>posixpath\<close> on a POSIX host and \<^verbatim>\<open>ntpath\<close> on Windows.
  \<^verbatim>\<open>posixpath.basename\<close> is \<^verbatim>\<open>i = p.rfind('/') + 1; return p[i:]\<close>.
\<close>

definition posixpath_basename :: "string \<Rightarrow> string" where
  "posixpath_basename p = drop (nat (rfind p CHR ''/'' + 1)) p"

text \<open>
  \<^verbatim>\<open>ntpath.splitdrive\<close>: a path whose second character is a colon has its first two
  characters as the drive; a path that starts with two separators is a UNC or device
  path, which Python versions split differently, so that case is a parameter \<open>unc\<close> of the
  Windows host; any other path has no drive.
\<close>

definition is_separator :: "char \<Rightarrow> bool" where
  "is_separator c = (c = CHR ''/'' \<or> c = backslash)"

definition ntpath_splitdrive :: "(string \<Rightarrow> string \<times> string) \<Rightarrow> string \<Rightarrow> string \<times> string" where
  "ntpath_splitdrive unc p =
     (if 2 \<le> length p then
        (let normp = str_replace CHR ''/'' backslash p in
         if take 2 normp = [backslash, backslash] then unc p
         else if take 1 (drop 1 normp) = '':'' then (take 2 p, drop 2 p)
         else ([], p))
      else ([], p))"

text \<open>
  \<^verbatim>\<open>ntpath.basename(p)\<close> is \<^verbatim>\<open>split(p)[1]\<close>: in what \<^verbatim>\<open>splitdrive\<close> leaves after the drive,
  \<^verbatim>\<open>i\<close> goes back from the end while \<^verbatim>\<open>p[i-1]\<close> is neither separator, and the tail is
  \<^verbatim>\<open>p[i:]\<close>.
\<close>

definition ntpath_basename :: "(string \<Rightarrow> string \<times> string) \<Rightarrow> string \<Rightarrow> string" where
  "ntpath_basename unc p =
     (let rest = snd (ntpath_splitdrive unc p);
          i = length rest - length (takeWhile (\<lambda>c. \<not> is_separator c) (rev rest))
      in drop i rest)"

datatype os_path = Posixpath | Ntpath "string \<Rightarrow> string \<times> string"

definition os_path_basename :: "os_path \<Rightarrow> string \<Rightarrow> string" where
  "os_path_basename host p =
     (case host of Posixpath \<Rightarrow> posixpath_basename p | Ntpath unc \<Rightarrow> ntpath_basename unc p)"

section \<open>Collaborators\<close>

text \<open>
  Code the handlers call from outside their module: the database layer
  (\<^verbatim>\<open>app.database.images\<close>) over a store \<open>'db\<close>, the metadata parser
  (\<^verbatim>\<open>app.utils.images\<close>), pydantic's validation of a parsed value against
  \<^verbatim>\<open>MetadataModel\<close> (it reads floats, of an abstract type \<open>'f\<close>), \<^verbatim>\<open>os.path.exists\<close> and
  the flavour of \<^verbatim>\<open>os.path\<close> the host has. Each is a parameter of the handlers. A call that raises returns \<open>Inl\<close>; the toggle
  returns the store it leaves behind.
\<close>

record ('db, 'f) collaborators =
  db_get_all_images :: "bool option \<Rightarrow> 'db \<Rightarrow> string + pydict list"
  db_toggle_image_favourite_status :: "string \<Rightarrow> 'db \<Rightarrow> (string + bool) \<times> 'db"
  image_util_parse_metadata :: "pyval \<Rightarrow> string + pyval"
  MetadataModel_validate :: "pyval \<Rightarrow> 'f MetadataModel option"
  os_path_exists :: "pyval \<Rightarrow> string + bool"
  os_path :: os_path

section \<open>\<^verbatim>\<open>GET /\<close>: get_all_images\<close>

text \<open>
  \<^verbatim>\<open>ImageData(id=..., ..., tags=...)\<close>: every field is validated, and one
  \<^verbatim>\<open>ValidationError\<close> names all the fields that failed.
\<close>

definition ImageData_errors ::
  "(pyval \<Rightarrow> 'f MetadataModel option) \<Rightarrow> pyval \<Rightarrow> pyval \<Rightarrow> pyval \<Rightarrow> pyval \<Rightarrow> pyval \<Rightarrow> pyval
     \<Rightarrow> pyval \<Rightarrow> pyval \<Rightarrow> string list" where
  "ImageData_errors vm a_id a_path a_folder a_thumb a_meta a_tagged a_fav a_tags =
     (if validate_str a_id = None then [''id''] else []) @
     (if validate_str a_path = None then [''path''] else []) @
     (if validate_str a_folder = None then [''folder_id''] else []) @
     (if validate_str a_thumb = None then [''thumbnailPath''] else []) @
     (if vm a_meta = None then [''metadata''] else []) @
     (if validate_bool a_tagged = None then [''isTagged''] else []) @
     (if validate_bool a_fav = None then [''isFavourite''] else []) @
     (if validate_tags a_tags = None then [''tags''] else [])"

definition ImageData_new ::
  "(pyval \<Rightarrow> 'f MetadataModel option) \<Rightarrow> pyval \<Rightarrow> pyval \<Rightarrow> pyval \<Rightarrow> pyval \<Rightarrow> pyval \<Rightarrow> pyval
     \<Rightarrow> pyval \<Rightarrow> pyval \<Rightarrow> exn + 'f ImageData" where
  "ImageData_new vm a_id a_path a_folder a_thumb a_meta a_tagged a_fav a_tags =
     (case (validate_str a_id, validate_str a_path, validate_str a_folder,
            validate_str a_thumb, vm a_meta, validate_bool a_tagged, validate_bool a_fav,
            validate_tags a_tags) of
        (Some i, Some p, Some fo, Some th, Some m, Some tg, Some fv, Some ts) \<Rightarrow>
          Inr \<lparr>id' = i, path = p, folder_id = fo, thumbnailPath = th, metadata = m,
               isTagged = tg, isFavourite = fv, tags = ts\<rparr>
      | _ \<Rightarrow>
          Inl (ValidationError
                 (ImageData_errors vm a_id a_path a_folder a_thumb a_meta a_tagged a_fav a_tags)))"

text \<open>
  One element of the list comprehension of \<^verbatim>\<open>get_all_images\<close>: the keyword arguments are
  evaluated in the order written (a missing key raises there), then the model is built.
\<close>

definition to_ImageData :: "('db, 'f) collaborators \<Rightarrow> pydict \<Rightarrow> exn + 'f ImageData" where
  "to_ImageData env img =
     and_then (getitem img ''id'') (\<lambda>a_id.
     and_then (getitem img ''path'') (\<lambda>a_path.
     and_then (getitem img ''folder_id'') (\<lambda>a_folder.
     and_then (getitem img ''thumbnailPath'') (\<lambda>a_thumb.
     and_then (getitem img ''metadata'') (\<lambda>raw.
     and_then (foreign (image_util_parse_metadata env raw)) (\<lambda>a_meta.
     and_then (getitem img ''isTagged'') (\<lambda>a_tagged.
     and_then (getitem img ''tags'') (\<lambda>a_tags.
       ImageData_new (MetadataModel_validate env) a_id a_path a_folder a_thumb a_meta a_tagged
         (dict_get img ''isFavourite'' (VBool False)) a_tags))))))))"

fun image_data_of :: "('db, 'f) collaborators \<Rightarrow> pydict list \<Rightarrow> exn + 'f ImageData list" where
  "image_data_of env [] = Inr []"
| "image_data_of env (img # images) =
     (case to_ImageData env img of
        Inl e \<Rightarrow> Inl e
      | Inr d \<Rightarrow> (case image_data_of env images of Inl e \<Rightarrow> Inl e | Inr ds \<Rightarrow> Inr (d # ds)))"

definition get_all_images_body ::
  "('db, 'f) collaborators \<Rightarrow> bool option \<Rightarrow> 'db \<Rightarrow> exn + 'f GetAllImagesResponse" where
  "get_all_images_body env tagged db =
     and_then (foreign (db_get_all_images env tagged db)) (\<lambda>images.
     and_then (image_data_of env images) (\<lambda>image_data.
       Inr \<lparr>success = True,
            message = [Lit ''Successfully retrieved '', Val (VInt (int (length image_data))),
                       Lit '' images''],
            data = image_data\<rparr>))"

text \<open>The \<^verbatim>\<open>except Exception\<close> of \<^verbatim>\<open>get_all_images\<close> turns whatever was raised into a 500.\<close>

definition get_all_images ::
  "('db, 'f) collaborators \<Rightarrow> bool option \<Rightarrow> 'db \<Rightarrow> exn + 'f GetAllImagesResponse" where
  "get_all_images env tagged db =
     (case get_all_images_body env tagged db of
        Inl e \<Rightarrow>
          Inl (HTTPException HTTP_500_INTERNAL_SERVER_ERROR
                 (DetailErrorResponse False [Lit ''Internal server error'']
                    [Lit ''Unable to retrieve images: '', Exc e]))
      | Inr r \<Rightarrow> Inr r)"

section \<open>\<^verbatim>\<open>POST /toggle-favourite\<close>: toggle_favourite\<close>

text \<open>
  \<^verbatim>\<open>next((img for img in images if img["id"] == image_id), None)\<close>: the first record whose
  id is the string asked for; \<^verbatim>\<open>img["id"]\<close> raises on a record without the key.
\<close>

fun find_image :: "pydict list \<Rightarrow> string \<Rightarrow> exn + pydict option" where
  "find_image [] image_id = Inr None"
| "find_image (img # images) image_id =
     (case getitem img ''id'' of
        Inl e \<Rightarrow> Inl e
      | Inr v \<Rightarrow> if v = VStr image_id then Inr (Some img) else find_image images image_id)"

text \<open>
  The \<^verbatim>\<open>try\<close> block. The re-read calls \<^verbatim>\<open>db_get_all_images()\<close> with no filter. When
  the record is not found, \<^verbatim>\<open>next\<close> gives \<^verbatim>\<open>None\<close> and \<^verbatim>\<open>image.get\<close> raises
  \<^verbatim>\<open>AttributeError\<close>. The value returned is a dictionary.
\<close>

definition toggle_favourite_body ::
  "('db, 'f) collaborators \<Rightarrow> string \<Rightarrow> 'db \<Rightarrow> (exn + pydict) \<times> 'db" where
  "toggle_favourite_body env image_id db =
     (case db_toggle_image_favourite_status env image_id db of
        (Inl e, db') \<Rightarrow> (Inl (Foreign e), db')
      | (Inr ok, db') \<Rightarrow>
          if \<not> ok then
            (Inl (HTTPException 404 (DetailStr [Lit ''Image not found or failed to toggle''])), db')
          else
            (and_then (foreign (db_get_all_images env None db')) (\<lambda>images.
             and_then (find_image images image_id) (\<lambda>found.
               case found of
                 None \<Rightarrow> Inl (AttributeError ''NoneType'' ''get'')
               | Some img \<Rightarrow>
                   Inr [(''success'', VBool True),
                        (''image_id'', VStr image_id),
                        (''isFavourite'', dict_get img ''isFavourite'' (VBool False))])),
             db'))"

text \<open>
  \<^verbatim>\<open>except Exception as e\<close>: every exception of the block, the \<^verbatim>\<open>HTTPException\<close> raised
  inside it included, is logged and raised again as a 500. The result is the outcome, the
  log records written and the store.
\<close>

definition toggle_favourite ::
  "('db, 'f) collaborators \<Rightarrow> string \<Rightarrow> 'db \<Rightarrow> (exn + pydict) \<times> log_record list \<times> 'db" where
  "toggle_favourite env image_id db =
     (case toggle_favourite_body env image_id db of
        (Inl e, db') \<Rightarrow>
          (Inl (HTTPException 500 (DetailStr [Lit ''Internal server error: '', Exc e])),
           [LogError [Lit ''error in /toggle-favourite route: '', Exc e]],
           db')
      | (Inr r, db') \<Rightarrow> (Inr r, [], db'))"

section \<open>\<^verbatim>\<open>GET /download/{image_id}\<close>: download_image\<close>

definition type_name :: "pyval \<Rightarrow> string" where
  "type_name v =
     (case v of
        VNone \<Rightarrow> ''NoneType''
      | VBool _ \<Rightarrow> ''bool''
      | VInt _ \<Rightarrow> ''int''
      | VStr _ \<Rightarrow> ''str''
      | VList _ \<Rightarrow> ''list''
      | VDict _ \<Rightarrow> ''dict'')"

text \<open>\<^verbatim>\<open>os.path.basename(file_path.replace("\\", "/"))\<close>, for a string \<open>file_path\<close>.\<close>

definition download_filename :: "('db, 'f) collaborators \<Rightarrow> string \<Rightarrow> string" where
  "download_filename env p = os_path_basename (os_path env) (str_replace backslash CHR ''/'' p)"

text \<open>
  The \<^verbatim>\<open>try\<close> block, with the log records it writes. \<^verbatim>\<open>not image\<close> holds of \<^verbatim>\<open>None\<close>
  and of an empty dictionary; only a string has \<^verbatim>\<open>replace\<close>.
\<close>

definition download_image_body ::
  "('db, 'f) collaborators \<Rightarrow> string \<Rightarrow> 'db \<Rightarrow> (exn + FileResponse) \<times> log_record list" where
  "download_image_body env image_id db =
     (let log0 = [LogInfo [Lit ''Attempting to download image with ID: '', Val (VStr image_id)]];
          not_found =
            (Inl (HTTPException 404 (DetailStr [Lit ''Image not found''])),
             log0 @ [LogError [Lit ''Image ID '', Val (VStr image_id),
                               Lit '' not found in database'']])
      in
      case foreign (db_get_all_images env None db) of
        Inl e \<Rightarrow> (Inl e, log0)
      | Inr images \<Rightarrow>
          (case find_image images image_id of
             Inl e \<Rightarrow> (Inl e, log0)
           | Inr None \<Rightarrow> not_found
           | Inr (Some img) \<Rightarrow>
               if img = [] then not_found
               else
                 (case getitem img ''path'' of
                    Inl e \<Rightarrow> (Inl e, log0)
                  | Inr file_path \<Rightarrow>
                      (let log1 = log0 @ [LogInfo [Lit ''Found image. Path: '', Val file_path]] in
                       case foreign (os_path_exists env file_path) of
                         Inl e \<Rightarrow> (Inl e, log1)
                       | Inr False \<Rightarrow>
                           (Inl (HTTPException 404 (DetailStr [Lit ''File not found on disk''])),
                            log1 @ [LogError [Lit ''File does not exist on disk at path: '',
                                              Val file_path]])
                       | Inr True \<Rightarrow>
                           (case file_path of
                              VStr p \<Rightarrow>
                                (Inr (FileResponse p (download_filename env p)
                                        ''application/octet-stream''),
                                 log1)
                            | _ \<Rightarrow>
                                (Inl (AttributeError (type_name file_path) ''replace''),
                                 log1))))))"

text \<open>
  \<^verbatim>\<open>except HTTPException as he: raise he\<close> lets the 404s through; any other exception is
  logged and becomes a 500.
\<close>

definition download_image ::
  "('db, 'f) collaborators \<Rightarrow> string \<Rightarrow> 'db \<Rightarrow> (exn + FileResponse) \<times> log_record list" where
  "download_image env image_id db =
     (case download_image_body env image_id db of
        (Inl (HTTPException code d), lg) \<Rightarrow> (Inl (HTTPException code d), lg)
      | (Inl e, lg) \<Rightarrow>
          (Inl (HTTPException 500 (DetailStr [Lit ''Internal server error: '', Exc e])),
           lg @ [LogError [Lit ''Error downloading image '', Val (VStr image_id), Lit '': '',
                           Exc e]])
      | (Inr r, lg) \<Rightarrow> (Inr r, lg))"

section \<open>Notions the properties are stated with\<close>

text \<open>
  Normalizing the metadata of a raw record: \<^verbatim>\<open>image_util_parse_metadata\<close>, then the
  validation of its result as the \<^verbatim>\<open>metadata\<close> field of \<^verbatim>\<open>ImageData\<close>.
\<close>

definition normalize_metadata :: "('db, 'f) collaborators \<Rightarrow> pyval \<Rightarrow> 'f MetadataModel option" where
  "normalize_metadata env raw =
     (case image_util_parse_metadata env raw of
        Inl _ \<Rightarrow> None
      | Inr v \<Rightarrow> MetadataModel_validate env v)"

definition metadata_fails :: "('db, 'f) collaborators \<Rightarrow> pydict \<Rightarrow> bool" where
  "metadata_fails env img =
     (case map_of img ''metadata'' of None \<Rightarrow> False | Some raw \<Rightarrow> normalize_metadata env raw = None)"

text \<open>
  A raw record with the shape the handlers read: the four strings, a metadata entry, a
  boolean \<^verbatim>\<open>isTagged\<close>, \<^verbatim>\<open>isFavourite\<close> missing or boolean, \<^verbatim>\<open>tags\<close> \<^verbatim>\<open>None\<close> or a list
  of strings.
\<close>

definition is_str :: "pyval \<Rightarrow> bool" where
  "is_str v = (case v of VStr _ \<Rightarrow> True | _ \<Rightarrow> False)"

definition str_at :: "pydict \<Rightarrow> string \<Rightarrow> bool" where
  "str_at img k = (case map_of img k of Some (VStr _) \<Rightarrow> True | _ \<Rightarrow> False)"

definition typed_record :: "pydict \<Rightarrow> bool" where
  "typed_record img =
     (str_at img ''id'' \<and> str_at img ''path'' \<and> str_at img ''folder_id'' \<and>
      str_at img ''thumbnailPath'' \<and> map_of img ''metadata'' \<noteq> None \<and>
      (case map_of img ''isTagged'' of Some (VBool _) \<Rightarrow> True | _ \<Rightarrow> False) \<and>
      (case map_of img ''isFavourite'' of None \<Rightarrow> True | Some (VBool _) \<Rightarrow> True | _ \<Rightarrow> False) \<and>
      (case map_of img ''tags'' of
         Some VNone \<Rightarrow> True
       | Some (VList vs) \<Rightarrow> list_all is_str vs
       | _ \<Rightarrow> False))"

text \<open>The first record of a list that carries the id asked for, and its file on disk.\<close>

definition lookup_image :: "pydict list \<Rightarrow> string \<Rightarrow> pydict option" where
  "lookup_image images image_id = find (\<lambda>img. map_of img ''id'' = Some (VStr image_id)) images"

definition file_missing :: "('db, 'f) collaborators \<Rightarrow> pydict list \<Rightarrow> string \<Rightarrow> bool" where
  "file_missing env images image_id =
     (case lookup_image images image_id of
        None \<Rightarrow> False
      | Some img \<Rightarrow>
          (case map_of img ''path'' of
             None \<Rightarrow> False
           | Some p \<Rightarrow> os_path_exists env p = Inr False))"

text \<open>
  The last path segment in the words of the specification: split the path at every
  forward slash and every backslash, and take the last piece.
\<close>

fun split_path :: "string \<Rightarrow> string list" where
  "split_path [] = [[]]"
| "split_path (c # cs) =
     (if is_separator c then [] # split_path cs
      else (case split_path cs of [] \<Rightarrow> [[c]] | s # ss \<Rightarrow> (c # s) # ss))"

definition last_segment :: "string \<Rightarrow> string" where
  "last_segment p = last (split_path p)"

text \<open>
  The kinds of failure of the specification (section 7) and the status section 4.3 gives
  each: a malformed stored record, not found (an unknown id, or an id whose file is absent),
  and the catch-all for unexpected repository and filesystem failures.
\<close>

datatype error_kind = Validation | NotFound | Internal

definition spec_status :: "error_kind \<Rightarrow> nat" where
  "spec_status k = (case k of Validation \<Rightarrow> 400 | NotFound \<Rightarrow> 404 | Internal \<Rightarrow> 500)"

text \<open>
  What makes each operation fail, and the kind of the failure, read off the collaborators'
  answers. Listing (section 4.2): the repository fails, or a record does not convert, both
  internal.
\<close>

definition list_failure ::
  "('db, 'f) collaborators \<Rightarrow> bool option \<Rightarrow> 'db \<Rightarrow> error_kind option" where
  "list_failure env tagged db =
     (case db_get_all_images env tagged db of
        Inl _ \<Rightarrow> Some Internal
      | Inr images \<Rightarrow>
          if list_ex (\<lambda>img. isl (to_ImageData env img)) images then Some Internal else None)"

text \<open>
  Download: not found when no record has the id or the file of the record is missing;
  internal when the repository or the file system fails, a record lacks its id or its path,
  or the path is not a string.
\<close>

definition download_failure ::
  "('db, 'f) collaborators \<Rightarrow> string \<Rightarrow> 'db \<Rightarrow> error_kind option" where
  "download_failure env image_id db =
     (case db_get_all_images env None db of
        Inl _ \<Rightarrow> Some Internal
      | Inr images \<Rightarrow>
          (case find_image images image_id of
             Inl _ \<Rightarrow> Some Internal
           | Inr None \<Rightarrow> Some NotFound
           | Inr (Some img) \<Rightarrow>
               (case map_of img ''path'' of
                  None \<Rightarrow> Some Internal
                | Some p \<Rightarrow>
                    (case os_path_exists env p of
                       Inl _ \<Rightarrow> Some Internal
                     | Inr False \<Rightarrow> Some NotFound
                     | Inr True \<Rightarrow> (case p of VStr _ \<Rightarrow> None | _ \<Rightarrow> Some Internal)))))"

text \<open>
  Toggle: not found when the repository reports that the toggle did not apply; internal
  when the repository fails, or the re-read fails or does not hold the id.
\<close>

definition toggle_failure ::
  "('db, 'f) collaborators \<Rightarrow> string \<Rightarrow> 'db \<Rightarrow> error_kind option" where
  "toggle_failure env image_id db =
     (case db_toggle_image_favourite_status env image_id db of
        (Inl _, _) \<Rightarrow> Some Internal
      | (Inr False, _) \<Rightarrow> Some NotFound
      | (Inr True, db') \<Rightarrow>
          (case db_get_all_images env None db' of
             Inl _ \<Rightarrow> Some Internal
           | Inr images \<Rightarrow>
               (case find_image images image_id of
                  Inr (Some _) \<Rightarrow> None
                | _ \<Rightarrow> Some Internal)))"

definition status_code :: "exn \<Rightarrow> nat option" where
  "status_code e = (case e of HTTPException code _ \<Rightarrow> Some code | _ \<Rightarrow> None)"

definition structured_body :: "exn \<Rightarrow> bool" where
  "structured_body e =
     (case e of HTTPException _ (DetailErrorResponse ok _ _) \<Rightarrow> \<not> ok | _ \<Rightarrow> False)"

definition string_detail :: "exn \<Rightarrow> bool" where
  "string_detail e = (case e of HTTPException _ (DetailStr _) \<Rightarrow> True | _ \<Rightarrow> False)"

section \<open>The image repository of the specification\<close>

text \<open>
  Modelled from the spec: the stored image of the Image Repository
  (\<^verbatim>\<open>app.database.images\<close>, whose code is not among the sources). Section 3: an image has
  an id, a path, a folder, a thumbnail path, metadata, a flag \<^verbatim>\<open>isFavourite\<close> that may be
  absent from storage, and an optional sequence of tags.
\<close>

record stored_image =
  stored_id :: string
  stored_path :: string
  stored_folder_id :: string
  stored_thumbnailPath :: string
  stored_metadata :: pyval
  stored_isFavourite :: "bool option"
  stored_tags :: "string list option"

text \<open>
  Modelled from the spec: \<^verbatim>\<open>isTagged\<close> is derived, true iff \<^verbatim>\<open>tags\<close> is non-empty
  (section 3 and the glossary).
\<close>

definition stored_isTagged :: "stored_image \<Rightarrow> bool" where
  "stored_isTagged r = (case stored_tags r of None \<Rightarrow> False | Some ts \<Rightarrow> ts \<noteq> [])"

text \<open>
  Modelled from the spec: the raw record the repository hands out for a stored image; the
  \<^verbatim>\<open>isFavourite\<close> entry is there only when the flag is set in storage.
\<close>

definition raw_record :: "stored_image \<Rightarrow> pydict" where
  "raw_record r =
     [(''id'', VStr (stored_id r)),
      (''path'', VStr (stored_path r)),
      (''folder_id'', VStr (stored_folder_id r)),
      (''thumbnailPath'', VStr (stored_thumbnailPath r)),
      (''metadata'', stored_metadata r),
      (''isTagged'', VBool (stored_isTagged r)),
      (''tags'', (case stored_tags r of None \<Rightarrow> VNone | Some ts \<Rightarrow> VList (map VStr ts)))] @
     (case stored_isFavourite r of None \<Rightarrow> [] | Some b \<Rightarrow> [(''isFavourite'', VBool b)])"

text \<open>
  Modelled from the spec: \<^verbatim>\<open>listImages(taggedFilter)\<close> of section 6, the absent
  \<^verbatim>\<open>db_get_all_images\<close>. With a filter, the images whose \<^verbatim>\<open>isTagged\<close> equals it; without,
  all of them; in the order of the store.
\<close>

definition tag_filter :: "bool option \<Rightarrow> stored_image \<Rightarrow> bool" where
  "tag_filter tagged r = (case tagged of None \<Rightarrow> True | Some t \<Rightarrow> stored_isTagged r = t)"

definition spec_db_get_all_images :: "bool option \<Rightarrow> stored_image list \<Rightarrow> string + pydict list" where
  "spec_db_get_all_images tagged db = Inr (map raw_record (filter (tag_filter tagged) db))"

text \<open>
  Modelled from the spec: \<^verbatim>\<open>toggleFavouriteStatus(id)\<close> of section 6, the absent
  \<^verbatim>\<open>db_toggle_image_favourite_status\<close>. It flips the flag of the image with that id (an
  absent flag counts as false) and returns whether the toggle applied.
\<close>

definition flip_favourite :: "stored_image \<Rightarrow> stored_image" where
  "flip_favourite r = r\<lparr>stored_isFavourite := Some (stored_isFavourite r \<noteq> Some True)\<rparr>"

definition spec_db_toggle_image_favourite_status ::
  "string \<Rightarrow> stored_image list \<Rightarrow> (string + bool) \<times> stored_image list" where
  "spec_db_toggle_image_favourite_status image_id db =
     (if image_id \<in> set (map stored_id db)
      then (Inr True, map (\<lambda>r. if stored_id r = image_id then flip_favourite r else r) db)
      else (Inr False, db))"

text \<open>The handlers over that repository, whatever the other collaborators are.\<close>

definition on_spec_repository ::
  "(stored_image list, 'f) collaborators \<Rightarrow> (stored_image list, 'f) collaborators" where
  "on_spec_repository env =
     env\<lparr>db_get_all_images := spec_db_get_all_images,
         db_toggle_image_favourite_status := spec_db_toggle_image_favourite_status\<rparr>"

text \<open>What a listed image shows of the stored image it comes from.\<close>

definition shows_image ::
  "(stored_image list, 'f) collaborators \<Rightarrow> 'f ImageData \<Rightarrow> stored_image \<Rightarrow> bool" where
  "shows_image env d r =
     (id' d = stored_id r \<and> path d = stored_path r \<and> folder_id d = stored_folder_id r \<and>
      thumbnailPath d = stored_thumbnailPath r \<and>
      normalize_metadata env (stored_metadata r) = Some (metadata d) \<and>
      isTagged d = stored_isTagged r \<and>
      isFavourite d = (stored_isFavourite r = Some True) \<and>
      tags d = stored_tags r)"

definition stored_favourite :: "stored_image list \<Rightarrow> string \<Rightarrow> bool" where
  "stored_favourite db image_id =
     (case find (\<lambda>r. stored_id r = image_id) db of
        None \<Rightarrow> False
      | Some r \<Rightarrow> stored_isFavourite r = Some True)"

text \<open>Concrete collaborators and stores the properties are run on.\<close>

definition sample_metadata :: "unit MetadataModel" where
  "sample_metadata =
     \<lparr>name = ''photo.jpg'', date_created = None, width = 640, height = 480,
      file_location = ''/var/images/photo.jpg'', file_size = 1024, item_type = ''image/jpeg'',
      latitude = None, longitude = None, location = None\<rparr>"

text \<open>
  Validation against \<^verbatim>\<open>MetadataModel\<close> for metadata without coordinates: the seven
  fields without a default must be there (\<^verbatim>\<open>date_created\<close> may be \<^verbatim>\<open>None\<close>), strings and
  integers of their type; \<^verbatim>\<open>location\<close>, \<^verbatim>\<open>latitude\<close> and \<^verbatim>\<open>longitude\<close> default to \<^verbatim>\<open>None\<close>.
\<close>

definition str_field :: "pydict \<Rightarrow> string \<Rightarrow> string option" where
  "str_field d k = (case map_of d k of Some (VStr s) \<Rightarrow> Some s | _ \<Rightarrow> None)"

definition int_field :: "pydict \<Rightarrow> string \<Rightarrow> int option" where
  "int_field d k = (case map_of d k of Some (VInt n) \<Rightarrow> Some n | _ \<Rightarrow> None)"

definition optional_str :: "pyval option \<Rightarrow> string option option" where
  "optional_str v =
     (case v of Some VNone \<Rightarrow> Some None | Some (VStr s) \<Rightarrow> Some (Some s) | _ \<Rightarrow> None)"

definition no_coordinate :: "pydict \<Rightarrow> string \<Rightarrow> unit option option" where
  "no_coordinate d k =
     (case map_of d k of None \<Rightarrow> Some None | Some VNone \<Rightarrow> Some None | _ \<Rightarrow> None)"

definition sample_validate :: "pyval \<Rightarrow> unit MetadataModel option" where
  "sample_validate v =
     (case v of
        VDict d \<Rightarrow>
          (case (str_field d ''name'', optional_str (map_of d ''date_created''),
                 int_field d ''width'', int_field d ''height'', str_field d ''file_location'',
                 int_field d ''file_size'', str_field d ''item_type'',
                 no_coordinate d ''latitude'', no_coordinate d ''longitude'',
                 (case map_of d ''location'' of None \<Rightarrow> Some None | w \<Rightarrow> optional_str w)) of
             (Some n, Some dc, Some w, Some h, Some fl, Some fs, Some it, Some la, Some lo,
              Some loc) \<Rightarrow>
               Some \<lparr>name = n, date_created = dc, width = w, height = h, file_location = fl,
                     file_size = fs, item_type = it, latitude = la, longitude = lo,
                     location = loc\<rparr>
           | _ \<Rightarrow> None)
      | _ \<Rightarrow> None)"

text \<open>
  A POSIX host with one file on disk, over the repository of the specification; the
  metadata parser hands the stored dictionary on.
\<close>

definition sample_env :: "(stored_image list, unit) collaborators" where
  "sample_env =
     \<lparr>db_get_all_images = spec_db_get_all_images,
      db_toggle_image_favourite_status = spec_db_toggle_image_favourite_status,
      image_util_parse_metadata = (\<lambda>raw. Inr raw),
      MetadataModel_validate = sample_validate,
      os_path_exists = (\<lambda>p. Inr (p = VStr ''/var/images/photo.jpg'')),
      os_path = Posixpath\<rparr>"

definition sample_image :: stored_image where
  "sample_image =
     \<lparr>stored_id = ''1'', stored_path = ''/var/images/photo.jpg'', stored_folder_id = ''f'',
      stored_thumbnailPath = ''/var/thumbs/photo.jpg'',
      stored_metadata =
        VDict [(''name'', VStr ''photo.jpg''), (''date_created'', VNone),
               (''width'', VInt 640), (''height'', VInt 480),
               (''file_location'', VStr ''/var/images/photo.jpg''),
               (''file_size'', VInt 1024), (''item_type'', VStr ''image/jpeg'')],
      stored_isFavourite = None, stored_tags = Some []\<rparr>"

definition tagged_image :: stored_image where
  "tagged_image =
     sample_image\<lparr>stored_id := ''2'', stored_path := ''/var/images/gone.jpg'',
                  stored_tags := Some [''cat'']\<rparr>"

text \<open>A stored image whose metadata lacks every required field.\<close>

definition broken_image :: stored_image where
  "broken_image = sample_image\<lparr>stored_id := ''3'', stored_metadata := VDict []\<rparr>"

definition sample_listed :: "stored_image \<Rightarrow> unit ImageData" where
  "sample_listed r =
     \<lparr>id' = stored_id r, path = stored_path r, folder_id = stored_folder_id r,
      thumbnailPath = stored_thumbnailPath r, metadata = sample_metadata,
      isTagged = stored_isTagged r, isFavourite = (stored_isFavourite r = Some True),
      tags = stored_tags r\<rparr>"

text \<open>
  A repository that loses the record between the toggle and the re-read, and one that
  reports the toggle applied and leaves the stored record without the flag.
\<close>

definition vanishing_env :: "(stored_image list, unit) collaborators" where
  "vanishing_env =
     sample_env\<lparr>db_toggle_image_favourite_status :=
                  (\<lambda>image_id db. (Inr True, filter (\<lambda>r. stored_id r \<noteq> image_id) db))\<rparr>"

definition unstored_env :: "(stored_image list, unit) collaborators" where
  "unstored_env =
     sample_env\<lparr>db_toggle_image_favourite_status := (\<lambda>image_id db. (Inr True, db))\<rparr>"

text \<open>A repository whose every call raises.\<close>

definition failing_env :: "(stored_image list, unit) collaborators" where
  "failing_env =
     sample_env\<lparr>db_get_all_images := (\<lambda>tagged db. Inl ''OperationalError''),
                db_toggle_image_favourite_status :=
                  (\<lambda>image_id db. (Inl ''OperationalError'', db))\<rparr>"

text \<open>
  A Windows host on which every path exists, and a stored image whose path is relative to
  a drive. No sample path starts with two separators, so the host's way with UNC paths
  plays no part; it is taken to make the whole path the drive.
\<close>

definition windows_env :: "(stored_image list, unit) collaborators" where
  "windows_env =
     sample_env\<lparr>os_path_exists := (\<lambda>p. Inr True), os_path := Ntpath (\<lambda>p. (p, []))\<rparr>"

definition drive_image :: stored_image where
  "drive_image = sample_image\<lparr>stored_id := ''4'', stored_path := ''C:photo.jpg''\<rparr>"

section \<open>Basic facts about the building blocks\<close>

lemmas handler_defs = get_all_images_def get_all_images_body_def to_ImageData_def
  ImageData_new_def ImageData_errors_def and_then_def foreign_def getitem_def dict_get_def
  validate_str_def validate_bool_def validate_tags_def toggle_favourite_def
  toggle_favourite_body_def download_image_def download_image_body_def download_filename_def
  os_path_basename_def posixpath_basename_def ntpath_basename_def ntpath_splitdrive_def
  is_separator_def rfind_def str_replace_def backslash_def Let_def
  HTTP_500_INTERNAL_SERVER_ERROR_def

lemmas sample_defs = sample_env_def sample_image_def tagged_image_def broken_image_def
  spec_db_get_all_images_def spec_db_toggle_image_favourite_status_def raw_record_def
  tag_filter_def stored_isTagged_def flip_favourite_def sample_listed_def vanishing_env_def
  unstored_env_def failing_env_def windows_env_def drive_image_def on_spec_repository_def
  sample_validate_def str_field_def int_field_def optional_str_def no_coordinate_def
  sample_metadata_def

lemma and_then_Inr:
  "and_then r k = Inr y \<longleftrightarrow> (\<exists>x. r = Inr x \<and> k x = Inr y)"
  by (cases r) (simp_all add: and_then_def)

lemma getitem_Inr: "getitem d k = Inr v \<longleftrightarrow> map_of d k = Some v"
  by (simp add: getitem_def split: option.splits)

lemma foreign_Inr: "foreign r = Inr x \<longleftrightarrow> r = Inr x"
  by (cases r) (simp_all add: foreign_def)

lemma validate_str_VStr: "validate_str (VStr s) = Some s"
  by (simp add: validate_str_def)

lemma validate_bool_VBool: "validate_bool (VBool b) = Some b"
  by (simp add: validate_bool_def)

lemma ImageData_new_Inr:
  "ImageData_new vm a b c d m t f g = Inr x \<longleftrightarrow>
    (\<exists>i p fo th md tg fv ts. validate_str a = Some i \<and> validate_str b = Some p \<and>
       validate_str c = Some fo \<and> validate_str d = Some th \<and> vm m = Some md \<and>
       validate_bool t = Some tg \<and> validate_bool f = Some fv \<and> validate_tags g = Some ts \<and>
       x = \<lparr>id' = i, path = p, folder_id = fo, thumbnailPath = th, metadata = md,
             isTagged = tg, isFavourite = fv, tags = ts\<rparr>)"
  by (auto simp: ImageData_new_def split: option.splits)

lemma to_ImageData_Inr:
  "to_ImageData env img = Inr x \<longleftrightarrow>
    (\<exists>a b c d raw m t g. map_of img ''id'' = Some a \<and> map_of img ''path'' = Some b \<and>
       map_of img ''folder_id'' = Some c \<and> map_of img ''thumbnailPath'' = Some d \<and>
       map_of img ''metadata'' = Some raw \<and> image_util_parse_metadata env raw = Inr m \<and>
       map_of img ''isTagged'' = Some t \<and> map_of img ''tags'' = Some g \<and>
       ImageData_new (MetadataModel_validate env) a b c d m t
         (dict_get img ''isFavourite'' (VBool False)) g = Inr x)"
  by (simp add: to_ImageData_def and_then_Inr getitem_Inr foreign_Inr)

text \<open>The comprehension succeeds exactly when every element does, element by element.\<close>

lemma image_data_of_sound:
  "image_data_of env images = Inr ds \<Longrightarrow>
     list_all2 (\<lambda>img d. to_ImageData env img = Inr d) images ds"
  by (induction images arbitrary: ds) (auto split: sum.splits)

lemma image_data_of_Inl:
  "(\<exists>e. image_data_of env images = Inl e) \<longleftrightarrow>
     (\<exists>img\<in>set images. \<exists>e. to_ImageData env img = Inl e)"
proof (induction images)
  case Nil
  show ?case by simp
next
  case (Cons img images)
  show ?case
  proof (cases "to_ImageData env img")
    case (Inl e)
    then show ?thesis by auto
  next
    case (Inr d)
    then show ?thesis using Cons.IH
      by (cases "image_data_of env images") auto
  qed
qed

lemma to_ImageData_default:
  assumes "to_ImageData env img = Inr d" and "map_of img ''isFavourite'' = None"
  shows "isFavourite d = False"
  using assms
  by (auto simp: to_ImageData_Inr ImageData_new_Inr dict_get_def validate_bool_def)

lemma metadata_fails_Inl:
  assumes "metadata_fails env img"
  shows "\<exists>e. to_ImageData env img = Inl e"
proof (cases "to_ImageData env img")
  case (Inl e)
  then show ?thesis by blast
next
  case (Inr d)
  then have False using assms
    by (auto simp: to_ImageData_Inr ImageData_new_Inr metadata_fails_def normalize_metadata_def)
  then show ?thesis ..
qed

lemma those_validate_str:
  "list_all is_str vs \<Longrightarrow> \<exists>ts. those (map validate_str vs) = Some ts"
  by (induction vs) (auto simp: is_str_def validate_str_def split: pyval.splits)

lemma validate_tags_typed:
  assumes "case v of VNone \<Rightarrow> True | VList vs \<Rightarrow> list_all is_str vs | _ \<Rightarrow> False"
  shows "\<exists>ts. validate_tags v = Some ts"
proof (cases v)
  case (VList vs)
  with assms obtain ts where "those (map validate_str vs) = Some ts"
    using those_validate_str by auto
  with VList show ?thesis by (simp add: validate_tags_def)
qed (use assms in \<open>simp_all add: validate_tags_def\<close>)

lemma typed_record_Inr:
  assumes "typed_record img" and "\<not> metadata_fails env img"
  shows "\<exists>d. to_ImageData env img = Inr d"
proof -
  from assms(1) obtain i p fo th raw tg g where
    keys: "map_of img ''id'' = Some (VStr i)" "map_of img ''path'' = Some (VStr p)"
      "map_of img ''folder_id'' = Some (VStr fo)" "map_of img ''thumbnailPath'' = Some (VStr th)"
      "map_of img ''metadata'' = Some raw" "map_of img ''isTagged'' = Some (VBool tg)"
      "map_of img ''tags'' = Some g"
    and g: "case g of VNone \<Rightarrow> True | VList vs \<Rightarrow> list_all is_str vs | _ \<Rightarrow> False"
    by (auto simp: typed_record_def str_at_def split: option.splits pyval.splits)
  from assms(1) obtain fv where
    fav: "validate_bool (dict_get img ''isFavourite'' (VBool False)) = Some fv"
    by (auto simp: typed_record_def dict_get_def validate_bool_def split: option.splits pyval.splits)
  from assms(2) keys(5) obtain m md where
    meta: "image_util_parse_metadata env raw = Inr m" "MetadataModel_validate env m = Some md"
    by (auto simp: metadata_fails_def normalize_metadata_def split: sum.splits)
  from g obtain ts where ts: "validate_tags g = Some ts"
    using validate_tags_typed by blast
  show ?thesis
    by (simp add: to_ImageData_Inr ImageData_new_Inr keys meta fav ts validate_str_VStr
        validate_bool_VBool)
qed

section \<open>The handlers on the sample store\<close>

lemma on_spec_repository_sample: "on_spec_repository sample_env = sample_env"
  by (simp add: on_spec_repository_def sample_env_def)

lemma list_sample:
  "get_all_images sample_env None [sample_image, tagged_image] =
     Inr \<lparr>success = True,
          message = [Lit ''Successfully retrieved '', Val (VInt 2), Lit '' images''],
          data = [sample_listed sample_image, sample_listed tagged_image]\<rparr>"
  by (simp add: handler_defs sample_defs)

lemma list_sample_tagged:
  "get_all_images sample_env (Some True) [sample_image, tagged_image] =
     Inr \<lparr>success = True,
          message = [Lit ''Successfully retrieved '', Val (VInt 1), Lit '' images''],
          data = [sample_listed tagged_image]\<rparr>"
  by (simp add: handler_defs sample_defs)

lemma list_sample_untagged:
  "get_all_images sample_env (Some False) [sample_image, tagged_image] =
     Inr \<lparr>success = True,
          message = [Lit ''Successfully retrieved '', Val (VInt 1), Lit '' images''],
          data = [sample_listed sample_image]\<rparr>"
  by (simp add: handler_defs sample_defs)

lemma list_broken_body:
  "get_all_images_body sample_env None [sample_image, broken_image, tagged_image] =
     Inl (ValidationError [''metadata''])"
  by (simp add: handler_defs sample_defs)

lemma list_broken:
  "get_all_images sample_env None [sample_image, broken_image, tagged_image] =
     Inl (HTTPException 500
            (DetailErrorResponse False [Lit ''Internal server error'']
               [Lit ''Unable to retrieve images: '', Exc (ValidationError [''metadata''])]))"
  by (simp add: get_all_images_def list_broken_body HTTP_500_INTERNAL_SERVER_ERROR_def)

lemma download_found:
  "download_image sample_env ''1'' [sample_image, tagged_image] =
    (Inr (FileResponse ''/var/images/photo.jpg'' ''photo.jpg'' ''application/octet-stream''),
     [LogInfo [Lit ''Attempting to download image with ID: '', Val (VStr ''1'')],
      LogInfo [Lit ''Found image. Path: '', Val (VStr ''/var/images/photo.jpg'')]])"
  by (simp add: handler_defs sample_defs)

lemma download_unknown:
  "download_image sample_env ''5'' [sample_image, tagged_image] =
    (Inl (HTTPException 404 (DetailStr [Lit ''Image not found''])),
     [LogInfo [Lit ''Attempting to download image with ID: '', Val (VStr ''5'')],
      LogError [Lit ''Image ID '', Val (VStr ''5''), Lit '' not found in database'']])"
  by (simp add: handler_defs sample_defs)

lemma download_gone:
  "download_image sample_env ''2'' [sample_image, tagged_image] =
    (Inl (HTTPException 404 (DetailStr [Lit ''File not found on disk''])),
     [LogInfo [Lit ''Attempting to download image with ID: '', Val (VStr ''2'')],
      LogInfo [Lit ''Found image. Path: '', Val (VStr ''/var/images/gone.jpg'')],
      LogError [Lit ''File does not exist on disk at path: '',
                Val (VStr ''/var/images/gone.jpg'')]])"
  by (simp add: handler_defs sample_defs)

lemma toggle_unknown:
  "toggle_favourite sample_env ''nonexistent'' [sample_image] =
     (Inl (HTTPException 500
             (DetailStr [Lit ''Internal server error: '',
                         Exc (HTTPException 404
                                (DetailStr [Lit ''Image not found or failed to toggle'']))])),
      [LogError [Lit ''error in /toggle-favourite route: '',
                 Exc (HTTPException 404
                        (DetailStr [Lit ''Image not found or failed to toggle'']))]],
      [sample_image])"
  by (simp add: handler_defs sample_defs)

lemma toggle_vanishing:
  "toggle_favourite vanishing_env ''1'' [sample_image, tagged_image] =
     (Inl (HTTPException 500
             (DetailStr [Lit ''Internal server error: '',
                         Exc (AttributeError ''NoneType'' ''get'')])),
      [LogError [Lit ''error in /toggle-favourite route: '',
                 Exc (AttributeError ''NoneType'' ''get'')]],
      [tagged_image])"
  by (simp add: handler_defs sample_defs)

lemma toggle_unstored:
  "toggle_favourite unstored_env ''1'' [sample_image] =
     (Inr [(''success'', VBool True), (''image_id'', VStr ''1''), (''isFavourite'', VBool False)],
      [], [sample_image])"
  by (simp add: handler_defs sample_defs)

lemma toggle_once:
  "toggle_favourite sample_env ''1'' [sample_image] =
     (Inr [(''success'', VBool True), (''image_id'', VStr ''1''), (''isFavourite'', VBool True)],
      [], [sample_image\<lparr>stored_isFavourite := Some True\<rparr>])"
  by (simp add: handler_defs sample_defs)

lemma toggle_again:
  "toggle_favourite sample_env ''1'' [sample_image\<lparr>stored_isFavourite := Some True\<rparr>] =
     (Inr [(''success'', VBool True), (''image_id'', VStr ''1''), (''isFavourite'', VBool False)],
      [], [sample_image\<lparr>stored_isFavourite := Some False\<rparr>])"
  by (simp add: handler_defs sample_defs)

section \<open>Claims about \<^verbatim>\<open>toggle_favourite\<close> when the toggle does not apply\<close>

text \<open>
  C1. The claim: when the repository reports the image as unknown or not toggled
  (\<^verbatim>\<open>db_toggle_image_favourite_status\<close> returns false), the operation fails with HTTP 404
  and never with HTTP 500. The handler does raise the 404, but inside its own \<^verbatim>\<open>try\<close>
  block, whose \<^verbatim>\<open>except Exception\<close> catches it: what the caller gets is a 500 that wraps
  the 404. The theorem states what the code does.
\<close>

theorem toggle_unapplied_raises_500:
  "db_toggle_image_favourite_status env image_id db = (Inr False, db') \<Longrightarrow>
   toggle_favourite env image_id db =
     (Inl (HTTPException 500
             (DetailStr [Lit ''Internal server error: '',
                         Exc (HTTPException 404
                                (DetailStr [Lit ''Image not found or failed to toggle'']))])),
      [LogError [Lit ''error in /toggle-favourite route: '',
                 Exc (HTTPException 404
                        (DetailStr [Lit ''Image not found or failed to toggle'']))]],
      db')"
  by (simp add: toggle_favourite_def toggle_favourite_body_def)

theorem toggle_unapplied_raises_500_witness:
  "db_toggle_image_favourite_status sample_env ''nonexistent'' [sample_image] =
     (Inr False, [sample_image]) \<and>
   toggle_favourite sample_env ''nonexistent'' [sample_image] =
     (Inl (HTTPException 500
             (DetailStr [Lit ''Internal server error: '',
                         Exc (HTTPException 404
                                (DetailStr [Lit ''Image not found or failed to toggle'']))])),
      [LogError [Lit ''error in /toggle-favourite route: '',
                 Exc (HTTPException 404
                        (DetailStr [Lit ''Image not found or failed to toggle'']))]],
      [sample_image])"
proof -
  have h: "db_toggle_image_favourite_status sample_env ''nonexistent'' [sample_image] =
     (Inr False, [sample_image])"
    by (simp add: sample_defs)
  show ?thesis
    using h toggle_unapplied_raises_500 [OF h] by simp
qed

section \<open>Claims about the \<^verbatim>\<open>isFavourite\<close> default\<close>

text \<open>
  C2. A record that comes from the repository without the \<^verbatim>\<open>isFavourite\<close> field is shown
  with \<^verbatim>\<open>isFavourite\<close> false, never absent or null, in both responses that carry the field:
  the element of a successful listing that stands for the record, and the response of a
  successful toggle whose re-read found the record.
\<close>

theorem isFavourite_defaults_to_false:
  "(get_all_images env tagged db = Inr resp \<and> db_get_all_images env tagged db = Inr images \<and>
      i < length images \<and> map_of (images ! i) ''isFavourite'' = None
      \<longrightarrow> length (data resp) = length images \<and> isFavourite (data resp ! i) = False) \<and>
   (toggle_favourite env image_id db = (Inr r, lg, db') \<and>
      db_get_all_images env None db' = Inr images' \<and>
      find_image images' image_id = Inr (Some img) \<and> map_of img ''isFavourite'' = None
      \<longrightarrow> map_of r ''isFavourite'' = Some (VBool False))"
proof (intro conjI impI)
  assume a: "get_all_images env tagged db = Inr resp \<and>
      db_get_all_images env tagged db = Inr images \<and>
      i < length images \<and> map_of (images ! i) ''isFavourite'' = None"
  then have "image_data_of env images = Inr (data resp)"
    by (auto simp: get_all_images_def get_all_images_body_def and_then_Inr foreign_Inr
        split: sum.splits)
  then have l: "list_all2 (\<lambda>img d. to_ImageData env img = Inr d) images (data resp)"
    by (rule image_data_of_sound)
  then show "length (data resp) = length images"
    by (simp add: list_all2_lengthD)
  from a have "i < length images" by simp
  from list_all2_nthD [OF l this]
  have "to_ImageData env (images ! i) = Inr (data resp ! i)" .
  with a show "isFavourite (data resp ! i) = False"
    by (simp add: to_ImageData_default)
next
  assume "toggle_favourite env image_id db = (Inr r, lg, db') \<and>
      db_get_all_images env None db' = Inr images' \<and>
      find_image images' image_id = Inr (Some img) \<and> map_of img ''isFavourite'' = None"
  then show "map_of r ''isFavourite'' = Some (VBool False)"
    by (auto simp: toggle_favourite_def toggle_favourite_body_def and_then_Inr foreign_Inr
        dict_get_def split: prod.splits sum.splits if_splits option.splits)
qed

theorem isFavourite_defaults_to_false_witness:
  "get_all_images sample_env None [sample_image, tagged_image] =
     Inr \<lparr>success = True,
          message = [Lit ''Successfully retrieved '', Val (VInt 2), Lit '' images''],
          data = [sample_listed sample_image, sample_listed tagged_image]\<rparr> \<and>
   map_of (raw_record tagged_image) ''isFavourite'' = None \<and>
   isFavourite (sample_listed tagged_image) = False \<and>
   toggle_favourite unstored_env ''1'' [sample_image] =
     (Inr [(''success'', VBool True), (''image_id'', VStr ''1''), (''isFavourite'', VBool False)],
      [], [sample_image]) \<and>
   map_of (raw_record sample_image) ''isFavourite'' = None \<and>
   map_of [(''success'', VBool True), (''image_id'', VStr ''1''), (''isFavourite'', VBool False)]
     ''isFavourite'' = Some (VBool False)"
proof -
  let ?resp = "\<lparr>success = True,
          message = [Lit ''Successfully retrieved '', Val (VInt 2), Lit '' images''],
          data = [sample_listed sample_image, sample_listed tagged_image]\<rparr>"
  let ?images = "[raw_record sample_image, raw_record tagged_image]"
  let ?r = "[(''success'', VBool True), (''image_id'', VStr ''1''), (''isFavourite'', VBool False)]"
  have l: "get_all_images sample_env None [sample_image, tagged_image] = Inr ?resp \<and>
     db_get_all_images sample_env None [sample_image, tagged_image] = Inr ?images \<and>
     (1::nat) < length ?images \<and> map_of (?images ! 1) ''isFavourite'' = None"
    by (simp add: list_sample) (simp add: sample_defs)
  have t: "toggle_favourite unstored_env ''1'' [sample_image] = (Inr ?r, [], [sample_image]) \<and>
     db_get_all_images unstored_env None [sample_image] = Inr [raw_record sample_image] \<and>
     find_image [raw_record sample_image] ''1'' = Inr (Some (raw_record sample_image)) \<and>
     map_of (raw_record sample_image) ''isFavourite'' = None"
    by (simp add: toggle_unstored) (simp add: sample_defs getitem_def)
  have "isFavourite (data ?resp ! 1) = False"
    using l isFavourite_defaults_to_false
      [where env = sample_env and tagged = None and db = "[sample_image, tagged_image]"
         and resp = ?resp and images = ?images and i = 1]
    by blast
  moreover have "map_of ?r ''isFavourite'' = Some (VBool False)"
    using t isFavourite_defaults_to_false
      [where env = unstored_env and image_id = "''1''" and db = "[sample_image]"
         and r = ?r and db' = "[sample_image]" and lg = "[]"
         and images' = "[raw_record sample_image]" and img = "raw_record sample_image"]
    by blast
  ultimately show ?thesis
    using l t by simp
qed

section \<open>Claims about the all-or-nothing listing\<close>

text \<open>
  C3. Whenever the metadata of at least one raw record of the repository's result fails
  normalization, the whole listing fails with HTTP 500 (the structured internal error) and
  gives no partial result; when every record has the shape the handler reads and its
  metadata normalizes, the listing succeeds with one element per record, each the
  conversion of the record at the same position.
\<close>

theorem listing_is_all_or_nothing:
  assumes "db_get_all_images env tagged db = Inr images"
  shows "((\<exists>img\<in>set images. metadata_fails env img) \<longrightarrow>
            (\<exists>e. get_all_images env tagged db =
               Inl (HTTPException 500
                      (DetailErrorResponse False [Lit ''Internal server error'']
                         [Lit ''Unable to retrieve images: '', Exc e])))) \<and>
         ((\<forall>img\<in>set images. typed_record img \<and> \<not> metadata_fails env img) \<longrightarrow>
            (\<exists>ds. get_all_images env tagged db =
               Inr \<lparr>success = True,
                    message = [Lit ''Successfully retrieved '', Val (VInt (int (length images))),
                               Lit '' images''],
                    data = ds\<rparr> \<and>
               list_all2 (\<lambda>img d. to_ImageData env img = Inr d) images ds))"
proof (intro conjI impI)
  assume "\<exists>img\<in>set images. metadata_fails env img"
  then have "\<exists>img\<in>set images. \<exists>e. to_ImageData env img = Inl e"
    using metadata_fails_Inl by blast
  then obtain e where "image_data_of env images = Inl e"
    using image_data_of_Inl by blast
  then have "get_all_images env tagged db =
      Inl (HTTPException 500
             (DetailErrorResponse False [Lit ''Internal server error'']
                [Lit ''Unable to retrieve images: '', Exc e]))"
    by (simp add: get_all_images_def get_all_images_body_def assms foreign_def and_then_def
        HTTP_500_INTERNAL_SERVER_ERROR_def)
  then show "\<exists>e. get_all_images env tagged db =
      Inl (HTTPException 500
             (DetailErrorResponse False [Lit ''Internal server error'']
                [Lit ''Unable to retrieve images: '', Exc e]))" ..
next
  assume "\<forall>img\<in>set images. typed_record img \<and> \<not> metadata_fails env img"
  then have "\<forall>img\<in>set images. \<exists>d. to_ImageData env img = Inr d"
    using typed_record_Inr by blast
  then have "\<not> (\<exists>e. image_data_of env images = Inl e)"
    by (auto simp: image_data_of_Inl)
  then obtain ds where ds: "image_data_of env images = Inr ds"
    by (cases "image_data_of env images") auto
  then have l: "list_all2 (\<lambda>img d. to_ImageData env img = Inr d) images ds"
    by (rule image_data_of_sound)
  then have "length ds = length images"
    by (simp add: list_all2_lengthD)
  with ds l show "\<exists>ds. get_all_images env tagged db =
               Inr \<lparr>success = True,
                    message = [Lit ''Successfully retrieved '', Val (VInt (int (length images))),
                               Lit '' images''],
                    data = ds\<rparr> \<and>
               list_all2 (\<lambda>img d. to_ImageData env img = Inr d) images ds"
    by (simp add: get_all_images_def get_all_images_body_def assms foreign_def and_then_def)
qed

theorem listing_is_all_or_nothing_witness:
  "db_get_all_images sample_env None [sample_image, broken_image, tagged_image] =
     Inr [raw_record sample_image, raw_record broken_image, raw_record tagged_image] \<and>
   metadata_fails sample_env (raw_record broken_image) \<and>
   get_all_images sample_env None [sample_image, broken_image, tagged_image] =
     Inl (HTTPException 500
            (DetailErrorResponse False [Lit ''Internal server error'']
               [Lit ''Unable to retrieve images: '', Exc (ValidationError [''metadata''])])) \<and>
   db_get_all_images sample_env None [sample_image, tagged_image] =
     Inr [raw_record sample_image, raw_record tagged_image] \<and>
   typed_record (raw_record sample_image) \<and> \<not> metadata_fails sample_env (raw_record sample_image) \<and>
   typed_record (raw_record tagged_image) \<and> \<not> metadata_fails sample_env (raw_record tagged_image) \<and>
   get_all_images sample_env None [sample_image, tagged_image] =
     Inr \<lparr>success = True,
          message = [Lit ''Successfully retrieved '', Val (VInt 2), Lit '' images''],
          data = [sample_listed sample_image, sample_listed tagged_image]\<rparr>"
proof -
  have b: "db_get_all_images sample_env None [sample_image, broken_image, tagged_image] =
     Inr [raw_record sample_image, raw_record broken_image, raw_record tagged_image]"
    by (simp add: sample_env_def spec_db_get_all_images_def tag_filter_def)
  have g: "db_get_all_images sample_env None [sample_image, tagged_image] =
     Inr [raw_record sample_image, raw_record tagged_image]"
    by (simp add: sample_env_def spec_db_get_all_images_def tag_filter_def)
  have fails: "metadata_fails sample_env (raw_record broken_image)"
    by (simp add: metadata_fails_def normalize_metadata_def sample_defs)
  have ok: "typed_record (raw_record sample_image) \<and>
      \<not> metadata_fails sample_env (raw_record sample_image) \<and>
      typed_record (raw_record tagged_image) \<and>
      \<not> metadata_fails sample_env (raw_record tagged_image)"
    by (simp add: typed_record_def str_at_def is_str_def metadata_fails_def
        normalize_metadata_def sample_defs)
  from listing_is_all_or_nothing [OF b] fails
  have "\<exists>e. get_all_images sample_env None [sample_image, broken_image, tagged_image] =
      Inl (HTTPException 500
             (DetailErrorResponse False [Lit ''Internal server error'']
                [Lit ''Unable to retrieve images: '', Exc e]))"
    by simp
  moreover from listing_is_all_or_nothing [OF g] ok
  have "\<exists>ds. get_all_images sample_env None [sample_image, tagged_image] =
      Inr \<lparr>success = True,
           message = [Lit ''Successfully retrieved '', Val (VInt 2), Lit '' images''],
           data = ds\<rparr>"
    by auto
  ultimately show ?thesis
    using b g fails ok by (simp add: list_broken list_sample)
qed

section \<open>Claims settled on the repository of the specification\<close>

lemma those_validate_VStr: "those (map validate_str (map VStr ts)) = Some ts"
  by (induction ts) (simp_all add: validate_str_def)

lemma validate_tags_stored:
  "validate_tags (case ts of None \<Rightarrow> VNone | Some ts \<Rightarrow> VList (map VStr ts)) = Some ts"
  by (cases ts) (simp_all add: validate_tags_def those_validate_VStr del: map_map)

lemma raw_record_keys:
  "map_of (raw_record r) ''id'' = Some (VStr (stored_id r))"
  "map_of (raw_record r) ''path'' = Some (VStr (stored_path r))"
  "map_of (raw_record r) ''folder_id'' = Some (VStr (stored_folder_id r))"
  "map_of (raw_record r) ''thumbnailPath'' = Some (VStr (stored_thumbnailPath r))"
  "map_of (raw_record r) ''metadata'' = Some (stored_metadata r)"
  "map_of (raw_record r) ''isTagged'' = Some (VBool (stored_isTagged r))"
  "map_of (raw_record r) ''tags'' =
     Some (case stored_tags r of None \<Rightarrow> VNone | Some ts \<Rightarrow> VList (map VStr ts))"
  by (simp_all add: raw_record_def)

lemma raw_record_isFavourite:
  "dict_get (raw_record r) ''isFavourite'' (VBool False) = VBool (stored_isFavourite r = Some True)"
  by (cases "stored_isFavourite r") (simp_all add: raw_record_def dict_get_def)

lemma to_ImageData_raw_record:
  assumes "normalize_metadata env (stored_metadata r) = Some m"
  shows "to_ImageData (on_spec_repository env) (raw_record r) =
     Inr \<lparr>id' = stored_id r, path = stored_path r, folder_id = stored_folder_id r,
          thumbnailPath = stored_thumbnailPath r, metadata = m,
          isTagged = stored_isTagged r, isFavourite = (stored_isFavourite r = Some True),
          tags = stored_tags r\<rparr>"
proof -
  from assms obtain v where "image_util_parse_metadata env (stored_metadata r) = Inr v"
    and "MetadataModel_validate env v = Some m"
    by (auto simp: normalize_metadata_def split: sum.splits)
  then show ?thesis
    by (simp add: to_ImageData_Inr ImageData_new_Inr raw_record_keys raw_record_isFavourite
        validate_tags_stored validate_str_VStr validate_bool_VBool on_spec_repository_def)
qed

text \<open>The comprehension maps the records of the repository one by one, in their order.\<close>

lemma image_data_of_raw_records:
  assumes "\<forall>r\<in>set rs. normalize_metadata env (stored_metadata r) \<noteq> None"
  shows "\<exists>ds. image_data_of (on_spec_repository env) (map raw_record rs) = Inr ds \<and>
              list_all2 (shows_image env) ds rs"
  using assms
proof (induction rs)
  case Nil
  show ?case by simp
next
  case (Cons r rs)
  then obtain ds where ds: "image_data_of (on_spec_repository env) (map raw_record rs) = Inr ds"
    "list_all2 (shows_image env) ds rs"
    by auto
  from Cons.prems obtain m where m: "normalize_metadata env (stored_metadata r) = Some m"
    by auto
  let ?d = "\<lparr>id' = stored_id r, path = stored_path r, folder_id = stored_folder_id r,
          thumbnailPath = stored_thumbnailPath r, metadata = m,
          isTagged = stored_isTagged r, isFavourite = (stored_isFavourite r = Some True),
          tags = stored_tags r\<rparr>"
  have "shows_image env ?d r"
    by (simp add: shows_image_def m)
  with ds show ?case
    by (simp add: to_ImageData_raw_record [OF m])
qed

text \<open>
  C4. Over the repository of the specification, and when the metadata of the stored images
  normalizes: \<^verbatim>\<open>listImages(true)\<close> returns exactly the images whose tags are non-empty,
  \<^verbatim>\<open>listImages(false)\<close> exactly those whose tags are empty or absent, and \<^verbatim>\<open>listImages\<close>
  without a filter all images; each listed image shows its stored image, and the order of
  the store is kept.
\<close>

theorem listing_filters_by_tags_in_order:
  assumes "\<forall>r\<in>set db. normalize_metadata env (stored_metadata r) \<noteq> None"
  shows "\<exists>ds. get_all_images (on_spec_repository env) tagged db =
            Inr \<lparr>success = True,
                 message = [Lit ''Successfully retrieved '', Val (VInt (int (length ds))),
                            Lit '' images''],
                 data = ds\<rparr> \<and>
            list_all2 (shows_image env) ds
              (case tagged of
                 None \<Rightarrow> db
               | Some True \<Rightarrow> filter (\<lambda>r. stored_tags r \<noteq> None \<and> stored_tags r \<noteq> Some []) db
               | Some False \<Rightarrow> filter (\<lambda>r. stored_tags r = None \<or> stored_tags r = Some []) db)"
proof -
  let ?sel = "filter (tag_filter tagged) db"
  have sel: "?sel = (case tagged of
                 None \<Rightarrow> db
               | Some True \<Rightarrow> filter (\<lambda>r. stored_tags r \<noteq> None \<and> stored_tags r \<noteq> Some []) db
               | Some False \<Rightarrow> filter (\<lambda>r. stored_tags r = None \<or> stored_tags r = Some []) db)"
    by (auto simp: tag_filter_def stored_isTagged_def split: option.splits bool.splits
        intro!: filter_cong)
  from assms have "\<forall>r\<in>set ?sel. normalize_metadata env (stored_metadata r) \<noteq> None"
    by simp
  then obtain ds where ds: "image_data_of (on_spec_repository env) (map raw_record ?sel) = Inr ds"
    "list_all2 (shows_image env) ds ?sel"
    using image_data_of_raw_records by blast
  have "get_all_images (on_spec_repository env) tagged db =
            Inr \<lparr>success = True,
                 message = [Lit ''Successfully retrieved '', Val (VInt (int (length ds))),
                            Lit '' images''],
                 data = ds\<rparr>"
    using ds(1)
    by (simp add: get_all_images_def get_all_images_body_def foreign_def and_then_def
        spec_db_get_all_images_def on_spec_repository_def)
  with ds(2) sel show ?thesis by auto
qed

theorem listing_filters_by_tags_in_order_witness:
  "normalize_metadata sample_env (stored_metadata sample_image) = Some sample_metadata \<and>
   normalize_metadata sample_env (stored_metadata tagged_image) = Some sample_metadata \<and>
   stored_tags sample_image = Some [] \<and> stored_tags tagged_image = Some [''cat''] \<and>
   get_all_images (on_spec_repository sample_env) (Some True) [sample_image, tagged_image] =
     Inr \<lparr>success = True,
          message = [Lit ''Successfully retrieved '', Val (VInt 1), Lit '' images''],
          data = [sample_listed tagged_image]\<rparr> \<and>
   get_all_images (on_spec_repository sample_env) (Some False) [sample_image, tagged_image] =
     Inr \<lparr>success = True,
          message = [Lit ''Successfully retrieved '', Val (VInt 1), Lit '' images''],
          data = [sample_listed sample_image]\<rparr> \<and>
   get_all_images (on_spec_repository sample_env) None [sample_image, tagged_image] =
     Inr \<lparr>success = True,
          message = [Lit ''Successfully retrieved '', Val (VInt 2), Lit '' images''],
          data = [sample_listed sample_image, sample_listed tagged_image]\<rparr> \<and>
   shows_image sample_env (sample_listed sample_image) sample_image \<and>
   shows_image sample_env (sample_listed tagged_image) tagged_image"
proof -
  have n: "normalize_metadata sample_env (stored_metadata sample_image) = Some sample_metadata \<and>
      normalize_metadata sample_env (stored_metadata tagged_image) = Some sample_metadata"
    by (simp add: normalize_metadata_def sample_defs)
  then have h: "\<forall>r\<in>set [sample_image, tagged_image].
      normalize_metadata sample_env (stored_metadata r) \<noteq> None"
    by simp
  have tags: "stored_tags sample_image = Some [] \<and> stored_tags tagged_image = Some [''cat'']"
    by (simp add: sample_defs)
  from listing_filters_by_tags_in_order [OF h, of "Some True"] tags
  have "\<exists>ds. list_all2 (shows_image sample_env) ds [tagged_image]"
    by auto
  moreover have "shows_image sample_env (sample_listed sample_image) sample_image \<and>
      shows_image sample_env (sample_listed tagged_image) tagged_image"
    using n by (simp add: shows_image_def sample_listed_def)
  ultimately show ?thesis
    using n tags
    by (simp add: on_spec_repository_sample list_sample list_sample_tagged list_sample_untagged)
qed

lemma find_image_raw_records:
  "find_image (map raw_record rs) image_id =
     Inr (map_option raw_record (find (\<lambda>r. stored_id r = image_id) rs))"
  by (induction rs) (simp_all add: getitem_def raw_record_keys)

lemma find_flipped:
  "find (\<lambda>r. stored_id r = image_id)
     (map (\<lambda>r. if stored_id r = image_id then flip_favourite r else r) rs) =
   map_option flip_favourite (find (\<lambda>r. stored_id r = image_id) rs)"
  by (induction rs) (simp_all add: flip_favourite_def)

lemma find_member:
  "image_id \<in> set (map stored_id rs) \<Longrightarrow> \<exists>r. find (\<lambda>r. stored_id r = image_id) rs = Some r"
  by (induction rs) auto

lemma toggled_ids:
  "map stored_id (map (\<lambda>r. if stored_id r = image_id then flip_favourite r else r) rs) =
   map stored_id rs"
  by (induction rs) (simp_all add: flip_favourite_def)

text \<open>One toggle of a stored image: the response carries the flag read back after the write.\<close>

lemma toggle_on_spec_repository:
  assumes "image_id \<in> set (map stored_id db)"
  shows "toggle_favourite (on_spec_repository env) image_id db =
     (Inr [(''success'', VBool True), (''image_id'', VStr image_id),
           (''isFavourite'', VBool (\<not> stored_favourite db image_id))],
      [],
      map (\<lambda>r. if stored_id r = image_id then flip_favourite r else r) db)"
proof -
  from assms obtain r where r: "find (\<lambda>r. stored_id r = image_id) db = Some r"
    using find_member by blast
  show ?thesis
    using assms r
    by (simp add: toggle_favourite_def toggle_favourite_body_def on_spec_repository_def
        spec_db_toggle_image_favourite_status_def spec_db_get_all_images_def tag_filter_def
        foreign_def and_then_def find_image_raw_records find_flipped raw_record_isFavourite
        stored_favourite_def flip_favourite_def)
qed

text \<open>
  C8. Over the repository of the specification, for every id of a stored image: the first
  toggle answers with the negation of the stored flag (an absent flag counts as false),
  which is the flag the store holds after the write; a second toggle answers with the
  original flag, and the store holds it again.
\<close>

theorem toggle_twice_restores:
  assumes "image_id \<in> set (map stored_id db)"
  shows "\<exists>db1 db2.
     toggle_favourite (on_spec_repository env) image_id db =
       (Inr [(''success'', VBool True), (''image_id'', VStr image_id),
             (''isFavourite'', VBool (\<not> stored_favourite db image_id))], [], db1) \<and>
     stored_favourite db1 image_id = (\<not> stored_favourite db image_id) \<and>
     toggle_favourite (on_spec_repository env) image_id db1 =
       (Inr [(''success'', VBool True), (''image_id'', VStr image_id),
             (''isFavourite'', VBool (stored_favourite db image_id))], [], db2) \<and>
     stored_favourite db2 image_id = stored_favourite db image_id"
proof -
  let ?flip = "map (\<lambda>r. if stored_id r = image_id then flip_favourite r else r)"
  from assms obtain r where r: "find (\<lambda>r. stored_id r = image_id) db = Some r"
    using find_member by blast
  have fav1: "stored_favourite (?flip db) image_id = (\<not> stored_favourite db image_id)"
    using r by (simp add: stored_favourite_def find_flipped flip_favourite_def)
  have mem1: "image_id \<in> set (map stored_id (?flip db))"
    using assms by (simp only: toggled_ids)
  have fav2: "stored_favourite (?flip (?flip db)) image_id = stored_favourite db image_id"
    using r by (simp add: stored_favourite_def find_flipped flip_favourite_def del: map_map)
  show ?thesis
    using toggle_on_spec_repository [OF assms, of env]
      toggle_on_spec_repository [OF mem1, of env] fav1 fav2
    by simp
qed

theorem toggle_twice_restores_witness:
  "''1'' \<in> set (map stored_id [sample_image]) \<and>
   stored_favourite [sample_image] ''1'' = False \<and>
   toggle_favourite (on_spec_repository sample_env) ''1'' [sample_image] =
     (Inr [(''success'', VBool True), (''image_id'', VStr ''1''), (''isFavourite'', VBool True)],
      [], [sample_image\<lparr>stored_isFavourite := Some True\<rparr>]) \<and>
   toggle_favourite (on_spec_repository sample_env) ''1''
       [sample_image\<lparr>stored_isFavourite := Some True\<rparr>] =
     (Inr [(''success'', VBool True), (''image_id'', VStr ''1''), (''isFavourite'', VBool False)],
      [], [sample_image\<lparr>stored_isFavourite := Some False\<rparr>])"
proof -
  have h: "''1'' \<in> set (map stored_id [sample_image])"
    by (simp add: sample_image_def)
  have f: "stored_favourite [sample_image] ''1'' = False"
    by (simp add: stored_favourite_def sample_image_def)
  from toggle_twice_restores [OF h, of sample_env] f
  have "\<exists>db1. toggle_favourite (on_spec_repository sample_env) ''1'' [sample_image] =
       (Inr [(''success'', VBool True), (''image_id'', VStr ''1''),
             (''isFavourite'', VBool True)], [], db1)"
    by auto
  moreover have "toggle_favourite (on_spec_repository sample_env) ''1'' [sample_image] =
     (Inr [(''success'', VBool True), (''image_id'', VStr ''1''), (''isFavourite'', VBool True)],
      [], [sample_image\<lparr>stored_isFavourite := Some True\<rparr>])"
    by (simp add: on_spec_repository_sample toggle_once)
  moreover have "toggle_favourite (on_spec_repository sample_env) ''1''
       [sample_image\<lparr>stored_isFavourite := Some True\<rparr>] =
     (Inr [(''success'', VBool True), (''image_id'', VStr ''1''), (''isFavourite'', VBool False)],
      [], [sample_image\<lparr>stored_isFavourite := Some False\<rparr>])"
    by (simp add: on_spec_repository_sample toggle_again)
  ultimately show ?thesis
    using h f by blast
qed

section \<open>Claims about \<^verbatim>\<open>download_image\<close>\<close>

text \<open>\<^verbatim>\<open>posixpath.basename\<close> keeps what follows the last slash.\<close>

lemma posixpath_basename_takeWhile:
  "posixpath_basename s = rev (takeWhile (\<lambda>x. x \<noteq> CHR ''/'') (rev s))"
proof (cases "CHR ''/'' \<in> set s")
  case False
  then have tw: "takeWhile (\<lambda>x. x \<noteq> CHR ''/'') (rev s) = rev s"
    by (intro takeWhile_eq_all_conv [THEN iffD2]) auto
  show ?thesis
    unfolding tw using False by (simp add: posixpath_basename_def rfind_def)
next
  case True
  let ?k = "length (takeWhile (\<lambda>x. x \<noteq> CHR ''/'') (rev s))"
  have le: "?k \<le> length s"
    using length_takeWhile_le [of "\<lambda>x. x \<noteq> CHR ''/''" "rev s"] by simp
  have "rev (takeWhile (\<lambda>x. x \<noteq> CHR ''/'') (rev s)) = rev (take ?k (rev s))"
    by (rule arg_cong [OF takeWhile_eq_take])
  also have "\<dots> = drop (length s - ?k) s"
    by (simp add: take_rev)
  finally have "rev (takeWhile (\<lambda>x. x \<noteq> CHR ''/'') (rev s)) = drop (length s - ?k) s" .
  moreover have "nat (rfind s CHR ''/'' + 1) = length s - ?k"
    using True le by (simp add: rfind_def)
  ultimately show ?thesis by (simp add: posixpath_basename_def)
qed

lemma split_path_no_separator: "\<forall>x\<in>set cs. \<not> is_separator x \<Longrightarrow> split_path cs = [cs]"
  by (induction cs) auto

lemma split_path_nonempty: "split_path cs \<noteq> []"
  by (cases cs) (auto split: list.splits)

lemma split_path_separator_length:
  "\<exists>x\<in>set cs. is_separator x \<Longrightarrow> 2 \<le> length (split_path cs)"
proof (induction cs)
  case Nil
  then show ?case by simp
next
  case (Cons c cs)
  show ?case
  proof (cases "is_separator c")
    case True
    have "1 \<le> length (split_path cs)"
      using split_path_nonempty [of cs] by (cases "split_path cs") auto
    with True show ?thesis by simp
  next
    case False
    with Cons.prems have "\<exists>x\<in>set cs. is_separator x" by auto
    then have "2 \<le> length (split_path cs)" by (rule Cons.IH)
    with False show ?thesis by (auto split: list.splits)
  qed
qed

lemma last_split_path_Cons:
  "last (split_path (c # cs)) =
     (if \<exists>x\<in>set cs. is_separator x then last (split_path cs)
      else if is_separator c then cs else c # cs)"
proof (cases "\<exists>x\<in>set cs. is_separator x")
  case True
  then have "2 \<le> length (split_path cs)" by (rule split_path_separator_length)
  then obtain s t ss where "split_path cs = s # t # ss"
    by (cases "split_path cs"; cases "tl (split_path cs)") auto
  with True show ?thesis by auto
next
  case False
  then have "split_path cs = [cs]" by (simp add: split_path_no_separator)
  with False show ?thesis by auto
qed

lemma last_segment_takeWhile:
  "last_segment p = rev (takeWhile (\<lambda>x. \<not> is_separator x) (rev p))"
proof (induction p)
  case Nil
  show ?case by (simp add: last_segment_def)
next
  case (Cons c cs)
  show ?case
  proof (cases "\<exists>x\<in>set cs. is_separator x")
    case True
    then obtain x where "x \<in> set (rev cs)" "\<not> \<not> is_separator x" by auto
    then have "takeWhile (\<lambda>x. \<not> is_separator x) (rev cs @ [c]) =
        takeWhile (\<lambda>x. \<not> is_separator x) (rev cs)"
      by (rule takeWhile_append1)
    with True Cons.IH show ?thesis
      by (simp add: last_segment_def last_split_path_Cons del: split_path.simps)
  next
    case False
    then have "takeWhile (\<lambda>x. \<not> is_separator x) (rev cs @ [c]) =
        rev cs @ takeWhile (\<lambda>x. \<not> is_separator x) [c]"
      by (intro takeWhile_append2) auto
    with False show ?thesis
      by (simp add: last_segment_def last_split_path_Cons del: split_path.simps)
  qed
qed

lemma last_segment_str_replace:
  "last_segment (str_replace backslash CHR ''/'' p) = last_segment p"
proof -
  let ?f = "\<lambda>c. if c = backslash then CHR ''/'' else c"
  have eq: "(\<lambda>x. \<not> is_separator x) \<circ> ?f = (\<lambda>x. \<not> is_separator x)"
    by (auto simp: is_separator_def fun_eq_iff)
  have "last_segment (map ?f p) = rev (map ?f (takeWhile (\<lambda>x. \<not> is_separator x) (rev p)))"
    by (simp add: last_segment_takeWhile rev_map takeWhile_map eq)
  also have "map ?f (takeWhile (\<lambda>x. \<not> is_separator x) (rev p)) =
      takeWhile (\<lambda>x. \<not> is_separator x) (rev p)"
    by (rule map_idI) (auto dest!: set_takeWhileD simp: is_separator_def)
  finally show ?thesis by (simp add: last_segment_takeWhile str_replace_def)
qed

text \<open>With the backslashes replaced, the last slash is the last separator.\<close>

lemma posixpath_basename_last_segment:
  "posixpath_basename (str_replace backslash CHR ''/'' p) = last_segment p"
proof -
  let ?q = "str_replace backslash CHR ''/'' p"
  have "backslash \<noteq> CHR ''/''"
    by (simp add: backslash_def)
  then have "takeWhile (\<lambda>x. x \<noteq> CHR ''/'') (rev ?q) =
      takeWhile (\<lambda>x. \<not> is_separator x) (rev ?q)"
    by (intro takeWhile_cong refl) (auto simp: is_separator_def str_replace_def)
  then have "posixpath_basename ?q = last_segment ?q"
    by (simp add: posixpath_basename_takeWhile last_segment_takeWhile)
  then show ?thesis
    by (simp add: last_segment_str_replace)
qed

lemma ntpath_basename_last_segment:
  "ntpath_basename unc q = last_segment (snd (ntpath_splitdrive unc q))"
proof -
  let ?rest = "snd (ntpath_splitdrive unc q)"
  let ?k = "length (takeWhile (\<lambda>c. \<not> is_separator c) (rev ?rest))"
  have "rev (takeWhile (\<lambda>c. \<not> is_separator c) (rev ?rest)) = rev (take ?k (rev ?rest))"
    by (rule arg_cong [OF takeWhile_eq_take])
  also have "\<dots> = drop (length ?rest - ?k) ?rest"
    by (simp add: take_rev)
  finally show ?thesis
    by (simp add: ntpath_basename_def Let_def last_segment_takeWhile)
qed

lemma download_filename_examples:
  "download_filename env (''C:'' @ [backslash] @ ''images'' @ [backslash] @ ''photo.jpg'') =
     ''photo.jpg''"
  "download_filename env ''/var/images/photo.jpg'' = ''photo.jpg''"
  by (cases "os_path env"; simp add: handler_defs)+

text \<open>A successful download answers with the stored path, the derived name and one media type.\<close>

lemma download_response:
  "fst (download_image env image_id db) = Inr r \<Longrightarrow>
     r = FileResponse (response_path r) (download_filename env (response_path r))
           ''application/octet-stream''"
  by (auto simp: download_image_def download_image_body_def Let_def foreign_def
      split: sum.splits option.splits if_splits bool.splits pyval.splits exn.splits prod.splits)

lemma find_image_Inl: "find_image images image_id = Inl e \<Longrightarrow> e = KeyError ''id''"
  by (induction images) (auto simp: getitem_def split: option.splits if_splits)

lemma find_image_Some:
  "find_image images image_id = Inr (Some img) \<Longrightarrow> lookup_image images image_id = Some img"
  by (induction images)
    (auto simp: lookup_image_def getitem_def split: option.splits if_splits)

lemma find_image_lookup:
  "\<forall>img\<in>set images. map_of img ''id'' \<noteq> None \<Longrightarrow>
     find_image images image_id = Inr (lookup_image images image_id)"
  by (induction images) (auto simp: lookup_image_def getitem_def)

lemma lookup_image_Some:
  "lookup_image images image_id = Some img \<Longrightarrow> map_of img ''id'' = Some (VStr image_id)"
  by (auto simp: lookup_image_def find_Some_iff)

text \<open>The download that succeeds is the one of the stored path of the image asked for.\<close>

lemma download_serves_stored_path:
  assumes "fst (download_image env image_id db) = Inr r"
  shows "\<exists>images img p. db_get_all_images env None db = Inr images \<and>
           lookup_image images image_id = Some img \<and> map_of img ''path'' = Some (VStr p) \<and>
           os_path_exists env (VStr p) = Inr True \<and>
           r = FileResponse p (download_filename env p) ''application/octet-stream''"
proof -
  from assms obtain images where images: "db_get_all_images env None db = Inr images"
    by (cases "db_get_all_images env None db")
      (auto simp: download_image_def download_image_body_def Let_def foreign_def)
  from assms images obtain img where img: "find_image images image_id = Inr (Some img)"
    by (cases "find_image images image_id")
      (auto simp: download_image_def download_image_body_def Let_def foreign_def
        dest: find_image_Inl split: option.splits)
  with assms images show ?thesis
    by (auto simp: download_image_def download_image_body_def Let_def foreign_def getitem_def
        dest: find_image_Some
        split: sum.splits option.splits if_splits bool.splits pyval.splits)
qed

lemma download_succeeds:
  assumes "db_get_all_images env None db = Inr images"
    and "\<forall>img\<in>set images. map_of img ''id'' \<noteq> None"
    and "lookup_image images image_id = Some img"
    and "map_of img ''path'' = Some (VStr p)"
    and "os_path_exists env (VStr p) = Inr True"
  shows "fst (download_image env image_id db) =
     Inr (FileResponse p (download_filename env p) ''application/octet-stream'')"
proof -
  from assms(3) have "img \<noteq> []"
    using lookup_image_Some by fastforce
  then show ?thesis
    by (simp add: download_image_def download_image_body_def Let_def foreign_def getitem_def
        assms(1,3,4,5) find_image_lookup [OF assms(2)])
qed

text \<open>
  C5, as amended. A download succeeds only for a record of the repository that carries the
  id asked for, and it serves the path stored in that record under the filename
  \<^verbatim>\<open>os.path.basename\<close> of the path with its backslashes replaced by slashes; when the
  repository's records all carry an id, the first record with the id, a string path and an
  existing file, the download does succeed so. On a POSIX host that filename is the last
  segment of the path split at both kinds of separator. On a Windows host it is the last
  such segment of what \<^verbatim>\<open>os.path.splitdrive\<close> leaves after the drive. On either host it is
  \<^verbatim>\<open>photo.jpg\<close> for \<^verbatim>\<open>C:\images\photo.jpg\<close> and for \<^verbatim>\<open>/var/images/photo.jpg\<close>.
\<close>

theorem download_filename_is_basename_of_stored_path:
  "(fst (download_image env image_id db) = Inr r \<longrightarrow>
      (\<exists>images img p. db_get_all_images env None db = Inr images \<and>
         lookup_image images image_id = Some img \<and> map_of img ''path'' = Some (VStr p) \<and>
         os_path_exists env (VStr p) = Inr True \<and>
         r = FileResponse p (download_filename env p) ''application/octet-stream'')) \<and>
   (db_get_all_images env None db = Inr images' \<and>
      (\<forall>img\<in>set images'. map_of img ''id'' \<noteq> None) \<and>
      lookup_image images' image_id = Some img' \<and> map_of img' ''path'' = Some (VStr p') \<and>
      os_path_exists env (VStr p') = Inr True \<longrightarrow>
      fst (download_image env image_id db) =
        Inr (FileResponse p' (download_filename env p') ''application/octet-stream'')) \<and>
   (os_path env = Posixpath \<longrightarrow> download_filename env q = last_segment q) \<and>
   (os_path env = Ntpath unc \<longrightarrow>
      download_filename env q =
        last_segment (snd (ntpath_splitdrive unc (str_replace backslash CHR ''/'' q)))) \<and>
   download_filename env (''C:'' @ [backslash] @ ''images'' @ [backslash] @ ''photo.jpg'') =
     ''photo.jpg'' \<and>
   download_filename env ''/var/images/photo.jpg'' = ''photo.jpg''"
proof (intro conjI impI)
  assume "fst (download_image env image_id db) = Inr r"
  then show "\<exists>images img p. db_get_all_images env None db = Inr images \<and>
         lookup_image images image_id = Some img \<and> map_of img ''path'' = Some (VStr p) \<and>
         os_path_exists env (VStr p) = Inr True \<and>
         r = FileResponse p (download_filename env p) ''application/octet-stream''"
    by (rule download_serves_stored_path)
next
  assume "db_get_all_images env None db = Inr images' \<and>
      (\<forall>img\<in>set images'. map_of img ''id'' \<noteq> None) \<and>
      lookup_image images' image_id = Some img' \<and> map_of img' ''path'' = Some (VStr p') \<and>
      os_path_exists env (VStr p') = Inr True"
  then show "fst (download_image env image_id db) =
        Inr (FileResponse p' (download_filename env p') ''application/octet-stream'')"
    using download_succeeds [of env db images' image_id img' p'] by blast
next
  assume "os_path env = Posixpath"
  then show "download_filename env q = last_segment q"
    by (simp add: download_filename_def os_path_basename_def posixpath_basename_last_segment)
next
  assume "os_path env = Ntpath unc"
  then show "download_filename env q =
        last_segment (snd (ntpath_splitdrive unc (str_replace backslash CHR ''/'' q)))"
    by (simp add: download_filename_def os_path_basename_def ntpath_basename_last_segment)
qed (rule download_filename_examples)+

theorem download_filename_is_basename_of_stored_path_witness:
  "fst (download_image sample_env ''1'' [sample_image, tagged_image]) =
     Inr (FileResponse ''/var/images/photo.jpg'' ''photo.jpg'' ''application/octet-stream'') \<and>
   lookup_image [raw_record sample_image, raw_record tagged_image] ''1'' =
     Some (raw_record sample_image) \<and>
   map_of (raw_record sample_image) ''path'' = Some (VStr ''/var/images/photo.jpg'') \<and>
   os_path sample_env = Posixpath \<and>
   last_segment ''/var/images/photo.jpg'' = ''photo.jpg'' \<and>
   os_path windows_env = Ntpath (\<lambda>p. (p, [])) \<and>
   fst (download_image windows_env ''4'' [drive_image]) =
     Inr (FileResponse ''C:photo.jpg'' ''photo.jpg'' ''application/octet-stream'') \<and>
   last_segment (snd (ntpath_splitdrive (\<lambda>p. (p, [])) ''C:photo.jpg'')) = ''photo.jpg''"
proof -
  let ?images = "[raw_record sample_image, raw_record tagged_image]"
  note t = download_filename_is_basename_of_stored_path
  have g: "db_get_all_images sample_env None [sample_image, tagged_image] = Inr ?images"
    by (simp add: sample_env_def spec_db_get_all_images_def tag_filter_def)
  have ids: "\<forall>img\<in>set ?images. map_of img ''id'' \<noteq> None"
    by (simp add: raw_record_keys)
  have l: "lookup_image ?images ''1'' = Some (raw_record sample_image)"
    by (simp add: lookup_image_def raw_record_keys sample_defs)
  have p: "map_of (raw_record sample_image) ''path'' = Some (VStr ''/var/images/photo.jpg'')"
    by (simp add: raw_record_keys sample_image_def)
  have e: "os_path_exists sample_env (VStr ''/var/images/photo.jpg'') = Inr True"
    by (simp add: sample_env_def)
  have posix: "os_path sample_env = Posixpath"
    by (simp add: sample_env_def)
  have win: "os_path windows_env = Ntpath (\<lambda>p. (p, []))"
    by (simp add: windows_env_def)
  from t [where env = sample_env and image_id = "''1''" and db = "[sample_image, tagged_image]"
            and images' = ?images and img' = "raw_record sample_image"
            and p' = "''/var/images/photo.jpg''"]
    g ids l p e
  have d: "fst (download_image sample_env ''1'' [sample_image, tagged_image]) =
      Inr (FileResponse ''/var/images/photo.jpg''
             (download_filename sample_env ''/var/images/photo.jpg'')
             ''application/octet-stream'')"
    by blast
  from t [where env = sample_env and q = "''/var/images/photo.jpg''"] posix
  have n: "download_filename sample_env ''/var/images/photo.jpg'' =
      last_segment ''/var/images/photo.jpg''"
    by blast
  from t [where env = sample_env]
  have x: "download_filename sample_env ''/var/images/photo.jpg'' = ''photo.jpg''"
    by blast
  from t [where env = windows_env and q = "''C:photo.jpg''" and unc = "\<lambda>p. (p, [])"] win
  have w: "download_filename windows_env ''C:photo.jpg'' =
      last_segment (snd (ntpath_splitdrive (\<lambda>p. (p, []))
                           (str_replace backslash CHR ''/'' ''C:photo.jpg'')))"
    by blast
  have r: "str_replace backslash CHR ''/'' ''C:photo.jpg'' = ''C:photo.jpg''"
    by (simp add: str_replace_def backslash_def)
  have dw: "fst (download_image windows_env ''4'' [drive_image]) =
     Inr (FileResponse ''C:photo.jpg'' ''photo.jpg'' ''application/octet-stream'')"
    by (simp add: handler_defs sample_defs)
  have fw: "download_filename windows_env ''C:photo.jpg'' = ''photo.jpg''"
    by (simp add: handler_defs sample_defs)
  from d n x w r dw fw l p posix win show ?thesis
    by (simp only:)
qed

text \<open>
  C5 as stated fails on a Windows host: for the stored path \<^verbatim>\<open>C:photo.jpg\<close> the download
  suggests \<^verbatim>\<open>photo.jpg\<close>, while the path has no separator and its last segment is the whole
  of it.
\<close>

theorem download_filename_counterexample:
  "fst (download_image windows_env ''4'' [drive_image]) =
     Inr (FileResponse ''C:photo.jpg'' ''photo.jpg'' ''application/octet-stream'') \<and>
   last_segment ''C:photo.jpg'' = ''C:photo.jpg''"
  by (simp add: handler_defs sample_defs last_segment_def)

text \<open>
  C9. When the repository answers with records that all carry an id, a download fails with
  HTTP 404 exactly when no record has the id asked for, or the path stored in the first
  record with that id is not an existing file. Both causes reach the caller as a 404, not a
  500, and the log tells them apart: \<^verbatim>\<open>Image ID ... not found in database\<close> for the first,
  \<^verbatim>\<open>File does not exist on disk at path: ...\<close> for the second.
\<close>

theorem download_not_found_causes:
  assumes "db_get_all_images env None db = Inr images"
    and "\<forall>img\<in>set images. map_of img ''id'' \<noteq> None"
  shows "((\<exists>d. fst (download_image env image_id db) = Inl (HTTPException 404 d)) \<longleftrightarrow>
            lookup_image images image_id = None \<or> file_missing env images image_id) \<and>
         (lookup_image images image_id = None \<longrightarrow>
            download_image env image_id db =
              (Inl (HTTPException 404 (DetailStr [Lit ''Image not found''])),
               [LogInfo [Lit ''Attempting to download image with ID: '', Val (VStr image_id)],
                LogError [Lit ''Image ID '', Val (VStr image_id),
                          Lit '' not found in database'']])) \<and>
         (file_missing env images image_id \<longrightarrow>
            (\<exists>p. download_image env image_id db =
              (Inl (HTTPException 404 (DetailStr [Lit ''File not found on disk''])),
               [LogInfo [Lit ''Attempting to download image with ID: '', Val (VStr image_id)],
                LogInfo [Lit ''Found image. Path: '', Val p],
                LogError [Lit ''File does not exist on disk at path: '', Val p]])))"
proof (cases "lookup_image images image_id")
  case None
  then show ?thesis
    by (simp add: download_image_def download_image_body_def Let_def foreign_def assms(1)
        find_image_lookup [OF assms(2)] file_missing_def)
next
  case (Some img)
  note img = this
  then have ne: "img \<noteq> []"
    using lookup_image_Some by fastforce
  show ?thesis
  proof (cases "map_of img ''path''")
    case None
    with img ne show ?thesis
      by (simp add: download_image_def download_image_body_def Let_def foreign_def assms(1)
          find_image_lookup [OF assms(2)] file_missing_def getitem_def)
  next
    case (Some p)
    note p = this
    show ?thesis
    proof (cases "os_path_exists env p")
      case (Inl e)
      with img ne p show ?thesis
        by (simp add: download_image_def download_image_body_def Let_def foreign_def assms(1)
            find_image_lookup [OF assms(2)] file_missing_def getitem_def)
    next
      case (Inr b)
      with img ne p show ?thesis
        by (cases b; cases p)
          (simp_all add: download_image_def download_image_body_def Let_def foreign_def
            assms(1) find_image_lookup [OF assms(2)] file_missing_def getitem_def)
    qed
  qed
qed

theorem download_not_found_causes_witness:
  "db_get_all_images sample_env None [sample_image, tagged_image] =
     Inr [raw_record sample_image, raw_record tagged_image] \<and>
   lookup_image [raw_record sample_image, raw_record tagged_image] ''5'' = None \<and>
   download_image sample_env ''5'' [sample_image, tagged_image] =
    (Inl (HTTPException 404 (DetailStr [Lit ''Image not found''])),
     [LogInfo [Lit ''Attempting to download image with ID: '', Val (VStr ''5'')],
      LogError [Lit ''Image ID '', Val (VStr ''5''), Lit '' not found in database'']]) \<and>
   file_missing sample_env [raw_record sample_image, raw_record tagged_image] ''2'' \<and>
   download_image sample_env ''2'' [sample_image, tagged_image] =
    (Inl (HTTPException 404 (DetailStr [Lit ''File not found on disk''])),
     [LogInfo [Lit ''Attempting to download image with ID: '', Val (VStr ''2'')],
      LogInfo [Lit ''Found image. Path: '', Val (VStr ''/var/images/gone.jpg'')],
      LogError [Lit ''File does not exist on disk at path: '',
                Val (VStr ''/var/images/gone.jpg'')]])"
proof -
  let ?images = "[raw_record sample_image, raw_record tagged_image]"
  have g: "db_get_all_images sample_env None [sample_image, tagged_image] = Inr ?images"
    by (simp add: sample_env_def spec_db_get_all_images_def tag_filter_def)
  have ids: "\<forall>img\<in>set ?images. map_of img ''id'' \<noteq> None"
    by (simp add: raw_record_keys)
  have none: "lookup_image ?images ''5'' = None"
    by (simp add: lookup_image_def raw_record_keys sample_defs)
  have gone: "file_missing sample_env ?images ''2''"
    by (simp add: file_missing_def lookup_image_def raw_record_keys sample_defs)
  from download_not_found_causes [OF g ids, of "''5''"] none
  have "\<exists>d. fst (download_image sample_env ''5'' [sample_image, tagged_image]) =
      Inl (HTTPException 404 d)"
    by blast
  moreover from download_not_found_causes [OF g ids, of "''2''"] gone
  have "\<exists>d. fst (download_image sample_env ''2'' [sample_image, tagged_image]) =
      Inl (HTTPException 404 d)"
    by blast
  moreover note g none gone download_unknown download_gone
  ultimately show ?thesis
    by blast
qed

text \<open>
  C10. Every successful download has the media type \<^verbatim>\<open>application/octet-stream\<close>, whatever
  the record's metadata says (the handler never reads the metadata).
\<close>

theorem download_media_type_is_octet_stream:
  "fst (download_image env image_id db) = Inr r \<Longrightarrow> media_type r = ''application/octet-stream''"
proof -
  assume "fst (download_image env image_id db) = Inr r"
  then have "r = FileResponse (response_path r) (download_filename env (response_path r))
           ''application/octet-stream''"
    by (rule download_response)
  then show ?thesis
    by (metis FileResponse.sel(3))
qed

theorem download_media_type_is_octet_stream_witness:
  "normalize_metadata sample_env (stored_metadata sample_image) = Some sample_metadata \<and>
   item_type sample_metadata = ''image/jpeg'' \<and>
   fst (download_image sample_env ''1'' [sample_image, tagged_image]) =
     Inr (FileResponse ''/var/images/photo.jpg'' ''photo.jpg'' ''application/octet-stream'') \<and>
   media_type (FileResponse ''/var/images/photo.jpg'' ''photo.jpg'' ''application/octet-stream'') =
     ''application/octet-stream''"
proof -
  let ?r = "FileResponse ''/var/images/photo.jpg'' ''photo.jpg'' ''application/octet-stream''"
  have h: "fst (download_image sample_env ''1'' [sample_image, tagged_image]) = Inr ?r"
    by (simp add: download_found)
  have m: "normalize_metadata sample_env (stored_metadata sample_image) = Some sample_metadata \<and>
      item_type sample_metadata = ''image/jpeg''"
    by (simp add: normalize_metadata_def sample_defs)
  from download_media_type_is_octet_stream [OF h] m h show ?thesis
    by blast
qed

section \<open>Claims about the error outcomes\<close>

text \<open>
  C6. The claim: when the toggle applies but the re-read of the image list does not hold
  the id, the operation fails with an internal error that carries a distinct
  post-toggle-inconsistency reason. The handler has no such case: \<^verbatim>\<open>next(..., None)\<close>
  gives \<^verbatim>\<open>None\<close>, \<^verbatim>\<open>image.get\<close> raises \<^verbatim>\<open>AttributeError\<close>, and the catch-all turns it into
  the same 500 as any other exception, with the attribute error as its text. The theorem
  states what the code does.
\<close>

theorem toggle_refetch_miss_is_attribute_error:
  "db_toggle_image_favourite_status env image_id db = (Inr True, db') \<Longrightarrow>
   db_get_all_images env None db' = Inr images \<Longrightarrow>
   find_image images image_id = Inr None \<Longrightarrow>
   toggle_favourite env image_id db =
     (Inl (HTTPException 500
             (DetailStr [Lit ''Internal server error: '',
                         Exc (AttributeError ''NoneType'' ''get'')])),
      [LogError [Lit ''error in /toggle-favourite route: '',
                 Exc (AttributeError ''NoneType'' ''get'')]],
      db')"
  by (simp add: toggle_favourite_def toggle_favourite_body_def and_then_def foreign_def)

theorem toggle_refetch_miss_is_attribute_error_witness:
  "db_toggle_image_favourite_status vanishing_env ''1'' [sample_image, tagged_image] =
     (Inr True, [tagged_image]) \<and>
   db_get_all_images vanishing_env None [tagged_image] = Inr [raw_record tagged_image] \<and>
   find_image [raw_record tagged_image] ''1'' = Inr None \<and>
   toggle_favourite vanishing_env ''1'' [sample_image, tagged_image] =
     (Inl (HTTPException 500
             (DetailStr [Lit ''Internal server error: '',
                         Exc (AttributeError ''NoneType'' ''get'')])),
      [LogError [Lit ''error in /toggle-favourite route: '',
                 Exc (AttributeError ''NoneType'' ''get'')]],
      [tagged_image])"
proof -
  have t: "db_toggle_image_favourite_status vanishing_env ''1'' [sample_image, tagged_image] =
     (Inr True, [tagged_image])"
    by (simp add: sample_defs)
  have g: "db_get_all_images vanishing_env None [tagged_image] = Inr [raw_record tagged_image]"
    by (simp add: vanishing_env_def sample_env_def spec_db_get_all_images_def tag_filter_def)
  have f: "find_image [raw_record tagged_image] ''1'' = Inr None"
    by (simp add: getitem_def raw_record_keys tagged_image_def)
  from toggle_refetch_miss_is_attribute_error [OF t g f] t g f show ?thesis
    by blast
qed

text \<open>Every outcome of a download, by what the collaborators answer.\<close>

lemma find_image_nonempty: "find_image images image_id = Inr (Some img) \<Longrightarrow> img \<noteq> []"
  using find_image_Some lookup_image_Some by fastforce

lemma download_image_cases:
  "fst (download_image env image_id db) =
     (case db_get_all_images env None db of
        Inl e \<Rightarrow>
          Inl (HTTPException 500 (DetailStr [Lit ''Internal server error: '', Exc (Foreign e)]))
      | Inr images \<Rightarrow>
          (case find_image images image_id of
             Inl e \<Rightarrow> Inl (HTTPException 500 (DetailStr [Lit ''Internal server error: '', Exc e]))
           | Inr None \<Rightarrow> Inl (HTTPException 404 (DetailStr [Lit ''Image not found'']))
           | Inr (Some img) \<Rightarrow>
               (case map_of img ''path'' of
                  None \<Rightarrow>
                    Inl (HTTPException 500
                           (DetailStr [Lit ''Internal server error: '', Exc (KeyError ''path'')]))
                | Some p \<Rightarrow>
                    (case os_path_exists env p of
                       Inl e \<Rightarrow>
                         Inl (HTTPException 500
                                (DetailStr [Lit ''Internal server error: '', Exc (Foreign e)]))
                     | Inr False \<Rightarrow>
                         Inl (HTTPException 404 (DetailStr [Lit ''File not found on disk'']))
                     | Inr True \<Rightarrow>
                         (case p of
                            VStr s \<Rightarrow>
                              Inr (FileResponse s (download_filename env s)
                                     ''application/octet-stream'')
                          | _ \<Rightarrow>
                              Inl (HTTPException 500
                                     (DetailStr [Lit ''Internal server error: '',
                                                 Exc (AttributeError (type_name p)
                                                        ''replace'')])))))))"
proof (cases "db_get_all_images env None db")
  case (Inl e)
  then show ?thesis
    by (simp add: download_image_def download_image_body_def Let_def foreign_def)
next
  case (Inr images)
  note images = this
  show ?thesis
  proof (cases "find_image images image_id")
    case (Inl e)
    then have "e = KeyError ''id''" by (rule find_image_Inl)
    with Inl images show ?thesis
      by (simp add: download_image_def download_image_body_def Let_def foreign_def)
  next
    case (Inr found)
    show ?thesis
    proof (cases found)
      case None
      with Inr images show ?thesis
        by (simp add: download_image_def download_image_body_def Let_def foreign_def)
    next
      case (Some img)
      with Inr have "img \<noteq> []" using find_image_nonempty by blast
      with Some Inr images show ?thesis
        by (simp add: download_image_def download_image_body_def Let_def foreign_def
            getitem_def split: option.splits sum.splits bool.splits pyval.splits)
    qed
  qed
qed

lemma toggle_favourite_cases:
  "fst (toggle_favourite env image_id db) =
     (case toggle_favourite_body env image_id db of
        (Inl e, _) \<Rightarrow>
          Inl (HTTPException 500 (DetailStr [Lit ''Internal server error: '', Exc e]))
      | (Inr r, _) \<Rightarrow> Inr r)"
  by (simp add: toggle_favourite_def split: prod.splits sum.splits)

lemma list_failure_iff:
  "list_failure env tagged db = None \<longleftrightarrow> (\<exists>r. get_all_images_body env tagged db = Inr r)"
proof (cases "db_get_all_images env tagged db")
  case (Inl e)
  then show ?thesis
    by (simp add: list_failure_def get_all_images_body_def foreign_def and_then_def)
next
  case (Inr images)
  have "list_ex (\<lambda>img. isl (to_ImageData env img)) images \<longleftrightarrow>
      (\<exists>e. image_data_of env images = Inl e)"
    by (auto simp: image_data_of_Inl list_ex_iff isl_def)
  with Inr show ?thesis
    by (cases "image_data_of env images")
      (auto simp: list_failure_def get_all_images_body_def foreign_def and_then_def)
qed

text \<open>
  C7, as amended. Every error a handler raises is an \<^verbatim>\<open>HTTPException\<close> whose status
  follows the kind of the failure. A listing fails exactly on an internal failure (the
  repository raises or a record does not convert), with status 500 and the structured body
  \<^verbatim>\<open>{success: false, error, message}\<close> as its detail. A download fails exactly on a failure
  of kind not found (no record with the id, or its file is missing), with status 404, or of
  kind internal, with status 500. A toggle fails exactly on a failure, and on an internal
  one with status 500. The errors of the download and toggle endpoints carry a plain string
  as their detail, not the structured body.
\<close>

theorem error_status_follows_kind:
  "(get_all_images env tagged db = Inl x \<longrightarrow>
      list_failure env tagged db = Some Internal \<and>
      status_code x = Some (spec_status Internal) \<and> structured_body x) \<and>
   (list_failure env tagged db = None \<longrightarrow> (\<exists>r. get_all_images env tagged db = Inr r)) \<and>
   (fst (download_image env image_id db) = Inl z \<longrightarrow>
      (\<exists>k. download_failure env image_id db = Some k \<and> status_code z = Some (spec_status k)) \<and>
      string_detail z) \<and>
   (download_failure env image_id db = None \<longrightarrow>
      (\<exists>r. fst (download_image env image_id db) = Inr r)) \<and>
   (fst (toggle_favourite env image_id db) = Inl y \<longrightarrow>
      (\<exists>k. toggle_failure env image_id db = Some k) \<and> string_detail y \<and>
      (toggle_failure env image_id db = Some Internal \<longrightarrow>
         status_code y = Some (spec_status Internal))) \<and>
   (toggle_failure env image_id db = None \<longrightarrow>
      (\<exists>r. fst (toggle_favourite env image_id db) = Inr r))"
proof (intro conjI impI)
  assume x: "get_all_images env tagged db = Inl x"
  then obtain e where "get_all_images_body env tagged db = Inl e"
    and "x = HTTPException 500
      (DetailErrorResponse False [Lit ''Internal server error'']
         [Lit ''Unable to retrieve images: '', Exc e])"
    by (auto simp: get_all_images_def HTTP_500_INTERNAL_SERVER_ERROR_def split: sum.splits)
  then show "status_code x = Some (spec_status Internal)" and "structured_body x"
    and "list_failure env tagged db = Some Internal"
    using list_failure_iff [of env tagged db]
    by (auto simp: status_code_def structured_body_def spec_status_def list_failure_def
        split: sum.splits if_splits)
next
  assume "list_failure env tagged db = None"
  then show "\<exists>r. get_all_images env tagged db = Inr r"
    by (auto simp: list_failure_iff get_all_images_def)
next
  assume "fst (download_image env image_id db) = Inl z"
  then show "\<exists>k. download_failure env image_id db = Some k \<and>
      status_code z = Some (spec_status k)" and "string_detail z"
    by (auto simp: download_image_cases download_failure_def status_code_def spec_status_def
        string_detail_def split: sum.splits option.splits bool.splits pyval.splits)
next
  assume "download_failure env image_id db = None"
  then show "\<exists>r. fst (download_image env image_id db) = Inr r"
    by (auto simp: download_image_cases download_failure_def
        split: sum.splits option.splits bool.splits pyval.splits)
next
  assume y: "fst (toggle_favourite env image_id db) = Inl y"
  then show "\<exists>k. toggle_failure env image_id db = Some k"
    by (auto simp: toggle_favourite_cases toggle_favourite_body_def toggle_failure_def
        and_then_def foreign_def
        split: prod.splits sum.splits option.splits bool.splits if_splits)
  from y show "string_detail y"
    by (auto simp: toggle_favourite_cases string_detail_def split: prod.splits sum.splits)
  from y show "status_code y = Some (spec_status Internal)"
    by (auto simp: toggle_favourite_cases status_code_def spec_status_def
        split: prod.splits sum.splits)
next
  assume "toggle_failure env image_id db = None"
  then show "\<exists>r. fst (toggle_favourite env image_id db) = Inr r"
    by (auto simp: toggle_favourite_cases toggle_favourite_body_def toggle_failure_def
        and_then_def foreign_def
        split: prod.splits sum.splits option.splits bool.splits if_splits)
qed

theorem error_status_follows_kind_witness:
  "get_all_images sample_env None [sample_image, broken_image, tagged_image] =
     Inl (HTTPException 500
            (DetailErrorResponse False [Lit ''Internal server error'']
               [Lit ''Unable to retrieve images: '', Exc (ValidationError [''metadata''])])) \<and>
   list_failure sample_env None [sample_image, broken_image, tagged_image] = Some Internal \<and>
   fst (download_image sample_env ''5'' [sample_image, tagged_image]) =
     Inl (HTTPException 404 (DetailStr [Lit ''Image not found''])) \<and>
   download_failure sample_env ''5'' [sample_image, tagged_image] = Some NotFound \<and>
   fst (download_image failing_env ''1'' [sample_image]) =
     Inl (HTTPException 500
            (DetailStr [Lit ''Internal server error: '', Exc (Foreign ''OperationalError'')])) \<and>
   download_failure failing_env ''1'' [sample_image] = Some Internal \<and>
   fst (toggle_favourite failing_env ''1'' [sample_image]) =
     Inl (HTTPException 500
            (DetailStr [Lit ''Internal server error: '', Exc (Foreign ''OperationalError'')])) \<and>
   toggle_failure failing_env ''1'' [sample_image] = Some Internal \<and>
   download_failure sample_env ''1'' [sample_image, tagged_image] = None \<and>
   fst (download_image sample_env ''1'' [sample_image, tagged_image]) =
     Inr (FileResponse ''/var/images/photo.jpg'' ''photo.jpg'' ''application/octet-stream'')"
proof -
  let ?x = "HTTPException 500
        (DetailErrorResponse False [Lit ''Internal server error'']
           [Lit ''Unable to retrieve images: '', Exc (ValidationError [''metadata''])])"
  let ?z = "HTTPException 404 (DetailStr [Lit ''Image not found''])"
  let ?y = "HTTPException 500
        (DetailStr [Lit ''Internal server error: '', Exc (Foreign ''OperationalError'')])"
  note t = error_status_follows_kind
  have x: "get_all_images sample_env None [sample_image, broken_image, tagged_image] = Inl ?x"
    by (rule list_broken)
  have z: "fst (download_image sample_env ''5'' [sample_image, tagged_image]) = Inl ?z"
    by (simp add: download_unknown)
  have zi: "fst (download_image failing_env ''1'' [sample_image]) = Inl ?y"
    by (simp add: handler_defs sample_defs)
  have y: "fst (toggle_favourite failing_env ''1'' [sample_image]) = Inl ?y"
    by (simp add: handler_defs sample_defs)
  have ok: "download_failure sample_env ''1'' [sample_image, tagged_image] = None"
    by (simp add: download_failure_def getitem_def sample_defs)
  from x t [where env = sample_env and tagged = None
              and db = "[sample_image, broken_image, tagged_image]" and x = ?x]
  have lf: "list_failure sample_env None [sample_image, broken_image, tagged_image] =
      Some Internal"
    by blast
  from z t [where env = sample_env and image_id = "''5''"
              and db = "[sample_image, tagged_image]" and z = ?z]
  have "\<exists>k. download_failure sample_env ''5'' [sample_image, tagged_image] = Some k \<and>
      status_code ?z = Some (spec_status k)"
    by blast
  then obtain k where "download_failure sample_env ''5'' [sample_image, tagged_image] = Some k"
    and "status_code ?z = Some (spec_status k)"
    by blast
  then have df: "download_failure sample_env ''5'' [sample_image, tagged_image] = Some NotFound"
    by (cases k) (simp_all add: status_code_def spec_status_def)
  from zi t [where env = failing_env and image_id = "''1''" and db = "[sample_image]"
               and z = ?y]
  have "\<exists>k. download_failure failing_env ''1'' [sample_image] = Some k \<and>
      status_code ?y = Some (spec_status k)"
    by blast
  then obtain k' where "download_failure failing_env ''1'' [sample_image] = Some k'"
    and "status_code ?y = Some (spec_status k')"
    by blast
  then have di: "download_failure failing_env ''1'' [sample_image] = Some Internal"
    by (cases k') (simp_all add: status_code_def spec_status_def)
  have ti: "toggle_failure failing_env ''1'' [sample_image] = Some Internal"
    by (simp add: toggle_failure_def sample_defs)
  from ok t [where env = sample_env and image_id = "''1''"
               and db = "[sample_image, tagged_image]"]
  have "\<exists>r. fst (download_image sample_env ''1'' [sample_image, tagged_image]) = Inr r"
    by blast
  then have d: "fst (download_image sample_env ''1'' [sample_image, tagged_image]) =
      Inr (FileResponse ''/var/images/photo.jpg'' ''photo.jpg'' ''application/octet-stream'')"
    by (simp add: download_found)
  from x lf z df zi di y ti ok d show ?thesis
    by blast
qed

text \<open>
  C7 as stated fails: the download of an unknown id is a failure of kind not found and is
  answered with status 404, but the error carries the plain string \<^verbatim>\<open>Image not found\<close>,
  not a structured body.
\<close>

theorem error_body_counterexample:
  "download_failure sample_env ''5'' [sample_image, tagged_image] = Some NotFound \<and>
   fst (download_image sample_env ''5'' [sample_image, tagged_image]) =
     Inl (HTTPException 404 (DetailStr [Lit ''Image not found''])) \<and>
   \<not> structured_body (HTTPException 404 (DetailStr [Lit ''Image not found'']))"
proof -
  have "download_failure sample_env ''5'' [sample_image, tagged_image] = Some NotFound"
    by (simp add: download_failure_def getitem_def sample_defs)
  then show ?thesis
    by (simp add: download_unknown structured_body_def)
qed

end
